theory Spec2Isabelle
  imports
    Main
    "HOL-Library.Sublist"
    "HOL-Library.Char_ord"
    "HOL-Library.List_Lexorder"
    "HOL-Library.AList"
    "HOL-Library.Word"
begin

section \<open>Values shared by the embedded functions\<close>

text \<open>
  JavaScript strings are modelled as \<^typ>\<open>string\<close>, one \<^typ>\<open>char\<close> per code unit
  (code units 0 to 255), except in the secret cipher, where a string is the list of its
  16-bit code units.  A value that may be \<^verbatim>\<open>undefined\<close> is an \<^typ>\<open>'a option\<close>.
  A thrown value is a \<open>js_error\<close>: the class of the error object and its
  \<^verbatim>\<open>message\<close>.  A function that may throw returns \<open>js_error + 'a\<close> with \<open>Inl\<close>
  for the throw.  The messages of the errors the engine itself raises are written as V8
  words them; no property below depends on their text.
\<close>

datatype js_error =
    TypeError string
  | RangeError string
  | Error string

fun message :: "js_error \<Rightarrow> string" where
  "message (TypeError m) = m"
| "message (RangeError m) = m"
| "message (Error m) = m"

text \<open>\<^verbatim>\<open>e.message = `${prefix}${e.message}`\<close>: the object keeps its class.\<close>

fun prefixMessage :: "string \<Rightarrow> js_error \<Rightarrow> js_error" where
  "prefixMessage p (TypeError m) = TypeError (p @ m)"
| "prefixMessage p (RangeError m) = RangeError (p @ m)"
| "prefixMessage p (Error m) = Error (p @ m)"

definition cannotRead :: "string \<Rightarrow> js_error" where
  \<comment> \<open>reading property \<open>p\<close> of \<^verbatim>\<open>undefined\<close>\<close>
  "cannotRead p = TypeError (''Cannot read property '' @ [CHR 0x27] @ p @ [CHR 0x27] @ '' of undefined'')"

text \<open>\<^verbatim>\<open>Array.prototype.join\<close> on strings.\<close>

fun join :: "string \<Rightarrow> string list \<Rightarrow> string" where
  "join sep [] = []"
| "join sep [x] = x"
| "join sep (x # y # ys) = x @ sep @ join sep (y # ys)"

text \<open>
  The fields of \<^verbatim>\<open>k8s.KubernetesObject\<close> and \<^verbatim>\<open>k8s.V1ObjectMeta\<close> the sources read.
  Every one of them is optional in the client library's declarations.  \<open>data\<close> is the
  value payload of a Secret, in key order.
\<close>

record ObjectMeta =
  name :: "string option"
  namespace :: "string option"
  labels :: "(string \<times> string) list"

record KubernetesObject =
  apiVersion :: "string option"
  kind :: "string option"
  metadata :: "ObjectMeta option"
  data :: "(string \<times> string) list"

record ProjectFile =
  path :: string
  content :: string

text \<open>\<^verbatim>\<open>interface ProjectFileSpec { file: ProjectFile; spec: DeepPartial<k8s.KubernetesObject>; }\<close>
  (the field \<^verbatim>\<open>file\<close> is \<open>specFile\<close> here)\<close>

record ProjectFileSpec =
  specFile :: ProjectFile
  spec :: KubernetesObject

section \<open>Deterministic naming: \<^verbatim>\<open>specFileBasename\<close>\<close>

definition isLowerAZ :: "char \<Rightarrow> bool" where
  \<comment> \<open>the regular expression class \<^verbatim>\<open>[a-z]\<close>\<close>
  "isLowerAZ c = (97 \<le> (of_char c :: nat) \<and> (of_char c :: nat) \<le> 122)"

definition isUpperAZ :: "char \<Rightarrow> bool" where
  \<comment> \<open>the regular expression class \<^verbatim>\<open>[A-Z]\<close>\<close>
  "isUpperAZ c = (65 \<le> (of_char c :: nat) \<and> (of_char c :: nat) \<le> 90)"

text \<open>
  \<^verbatim>\<open>kind.replace(/([a-z])([A-Z])/g, "$1-$2")\<close>: the scan goes left to right; a match
  consumes both characters and the scan resumes after them.
\<close>

fun replaceLowerUpper :: "string \<Rightarrow> string" where
  "replaceLowerUpper (a # b # cs) =
     (if isLowerAZ a \<and> isUpperAZ b then a # CHR ''-'' # b # replaceLowerUpper cs
      else a # replaceLowerUpper (b # cs))"
| "replaceLowerUpper cs = cs"

text \<open>
  \<^verbatim>\<open>String.prototype.toLowerCase\<close> on the code units 0 to 255: the ASCII capitals
  and the Latin-1 capitals (0xC0 to 0xDE without the multiplication sign 0xD7) move up
  by 32, every other code unit stays.
\<close>

definition toLowerChar :: "char \<Rightarrow> char" where
  "toLowerChar c =
     (let n = (of_char c :: nat) in
      if (65 \<le> n \<and> n \<le> 90) \<or> (192 \<le> n \<and> n \<le> 222 \<and> n \<noteq> 215)
      then char_of (n + 32) else c)"

definition toLowerCase :: "string \<Rightarrow> string" where
  "toLowerCase s = map toLowerChar s"

definition templateString :: "string option \<Rightarrow> string" where
  \<comment> \<open>\<^verbatim>\<open>`${v}`\<close> for a string or \<^verbatim>\<open>undefined\<close>\<close>
  "templateString v = (case v of None \<Rightarrow> ''undefined'' | Some s \<Rightarrow> s)"

definition truthy :: "string option \<Rightarrow> bool" where
  \<comment> \<open>\<^verbatim>\<open>undefined\<close> and the empty string are falsy\<close>
  "truthy v = (case v of None \<Rightarrow> False | Some s \<Rightarrow> s \<noteq> [])"

definition specFileBasename :: "KubernetesObject \<Rightarrow> js_error + string" where
  "specFileBasename resource =
     (case metadata resource of
        None \<Rightarrow> Inl (cannotRead ''namespace'')
      | Some m \<Rightarrow>
          (let ns = (if truthy (namespace m) then templateString (namespace m) @ ''-'' else '''') in
           case kind resource of
             None \<Rightarrow> Inl (cannotRead ''replace'')
           | Some k \<Rightarrow>
               Inr (toLowerCase (ns @ templateString (name m) @ ''-'' @ replaceLowerUpper k))))"

text \<open>
  The kebab-case kind in the words of the specification: the kind lowercased, with a
  hyphen inserted at each lowercase-to-uppercase boundary, position by position.
\<close>

definition kebabKind_spec :: "string \<Rightarrow> string" where
  "kebabKind_spec k =
     concat (map (\<lambda>i. if 0 < i \<and> isLowerAZ (k ! (i - 1)) \<and> isUpperAZ (k ! i)
                       then [CHR ''-'', toLowerChar (k ! i)]
                       else [toLowerChar (k ! i)])
                 [0..<length k])"

section \<open>Spec store: \<^verbatim>\<open>matchSpec\<close>\<close>

text \<open>
  The callback of \<^verbatim>\<open>fileSpecs.find\<close>.  \<^verbatim>\<open>&&\<close> evaluates left to right and stops at
  the first false operand, so \<^verbatim>\<open>metadata\<close> is dereferenced only when \<^verbatim>\<open>apiVersion\<close>
  and \<^verbatim>\<open>kind\<close> are equal; dereferencing an absent \<^verbatim>\<open>metadata\<close> throws a TypeError.
  \<^verbatim>\<open>===\<close> on two strings-or-undefined is equality of options.
\<close>

definition specMatches :: "KubernetesObject \<Rightarrow> ProjectFileSpec \<Rightarrow> js_error + bool" where
  "specMatches s fs =
     (if apiVersion s = apiVersion (spec fs) then
        if kind s = kind (spec fs) then
          (case metadata s of
             None \<Rightarrow> Inl (cannotRead ''name'')
           | Some m \<Rightarrow>
               (case metadata (spec fs) of
                  None \<Rightarrow> Inl (cannotRead ''name'')
                | Some fm \<Rightarrow> Inr (name m = name fm \<and> namespace m = namespace fm)))
        else Inr False
      else Inr False)"

text \<open>\<^verbatim>\<open>Array.prototype.find\<close> with a callback that may throw.\<close>

fun find_js :: "('a \<Rightarrow> js_error + bool) \<Rightarrow> 'a list \<Rightarrow> js_error + 'a option" where
  "find_js p [] = Inr None"
| "find_js p (x # xs) =
     (case p x of
        Inl e \<Rightarrow> Inl e
      | Inr True \<Rightarrow> Inr (Some x)
      | Inr False \<Rightarrow> find_js p xs)"

definition matchSpec :: "KubernetesObject \<Rightarrow> ProjectFileSpec list \<Rightarrow> js_error + ProjectFileSpec option" where
  "matchSpec s fileSpecs = find_js (specMatches s) fileSpecs"



text \<open>
  The same hyphenation by recursion, carrying the previous character: used to compare
  \<open>replaceLowerUpper\<close> with \<open>kebabKind_spec\<close>.
\<close>

fun hyphenate :: "char \<Rightarrow> string \<Rightarrow> string" where
  "hyphenate p [] = []"
| "hyphenate p (c # cs) =
     (if isLowerAZ p \<and> isUpperAZ c then [CHR ''-'', toLowerChar c] else [toLowerChar c])
     @ hyphenate c cs"

section \<open>Commit-loop guard: \<^verbatim>\<open>isSyncRepoCommit\<close>\<close>

text \<open>The provider enumeration of the automation client.\<close>

datatype ProviderType = bitbucket_cloud | github_com | ghe | bitbucket | gitlab_com | gitlab_enterprise

text \<open>The fields of a \<^verbatim>\<open>RemoteRepoRef\<close> the push test compares.\<close>

record RemoteRepoRef =
  providerType :: ProviderType
  owner :: string
  repo :: string
  branch :: "string option"

text \<open>
  The configured \<^verbatim>\<open>sync.repo\<close> is a \<^verbatim>\<open>SyncRepoRef | RemoteRepoRef\<close>: the owner, name
  and optional branch the user wrote, or the reference the startup listener resolved
  it to.
\<close>

datatype SyncRepo =
    Unresolved string string "string option"
  | Resolved RemoteRepoRef

text \<open>
  \<^verbatim>\<open>KubernetesSyncOptions\<close>, declared in \<^verbatim>\<open>lib/config\<close>: the fields the sources under
  \<^verbatim>\<open>src/\<close> read (the field \<^verbatim>\<open>repo\<close> is \<open>syncRepo\<close> here).
\<close>

record KubernetesSyncOptions =
  syncRepo :: "SyncRepo option"
  secretKey :: "string option"

text \<open>\<^verbatim>\<open>sdm.configuration.sdm.k8s.options.sync\<close>, which may be absent.\<close>

record SoftwareDeliveryMachine =
  sync :: "KubernetesSyncOptions option"

record Commit =
  sha :: string
  commitMessage :: string

text \<open>
  The push a push test sees: \<^verbatim>\<open>p.id\<close> (here \<open>pushId\<close>) and \<^verbatim>\<open>p.push.commits\<close>.
\<close>

record PushListenerInvocation =
  pushId :: RemoteRepoRef
  commits :: "Commit list"

text \<open>
  Modelled from the spec: \<^verbatim>\<open>isRemoteRepo\<close> of \<^verbatim>\<open>lib/sync/repo\<close> is missing from
  \<^verbatim>\<open>src/\<close>.  It tells whether the configured sync target was resolved to a concrete
  remote reference.
\<close>

definition isRemoteRepo :: "SyncRepo option \<Rightarrow> bool" where
  "isRemoteRepo r = (case r of Some (Resolved _) \<Rightarrow> True | _ \<Rightarrow> False)"

definition configuredRepo :: "SoftwareDeliveryMachine \<Rightarrow> SyncRepo option" where
  \<comment> \<open>\<^verbatim>\<open>_.get(sdm, "configuration.sdm.k8s.options.sync.repo")\<close>\<close>
  "configuredRepo sdm = (case sync sdm of None \<Rightarrow> None | Some so \<Rightarrow> syncRepo so)"

text \<open>
  The body of the push test \<^verbatim>\<open>IsSyncRepoCommit\<close>.  \<open>stringify\<close> is the JSON printer of
  the error message and \<open>commitTag\<close> is \<^verbatim>\<open>commitTag\<close> of \<^verbatim>\<open>lib/sync/tag\<close>, both taken
  as parameters.  The test reads the configuration when it runs.
  \<^verbatim>\<open>c.message.includes(tag)\<close> is \<^term>\<open>sublist tag (commitMessage c)\<close>.
\<close>

definition IsSyncRepoCommit ::
  "(SyncRepo option \<Rightarrow> string) \<Rightarrow> (SoftwareDeliveryMachine \<Rightarrow> string) \<Rightarrow>
   SoftwareDeliveryMachine \<Rightarrow> PushListenerInvocation \<Rightarrow> js_error + bool" where
  "IsSyncRepoCommit stringify commitTag sdm p =
     (if \<not> isRemoteRepo (configuredRepo sdm) then
        Inl (Error (''SyncRepoRef did not get converted to proper RemoteRepoRef at startup: ''
                    @ stringify (configuredRepo sdm)))
      else
        (case configuredRepo sdm of
           Some (Resolved r) \<Rightarrow>
             if providerType (pushId p) = providerType r \<and> owner (pushId p) = owner r \<and>
                repo (pushId p) = repo r \<and> branch (pushId p) = branch r
             then
               (let tag = commitTag sdm in
                Inr (list_ex (\<lambda>c. \<not> sublist tag (commitMessage c)) (commits p)))
             else Inr False
         | _ \<Rightarrow> Inr False))"

text \<open>
  \<^verbatim>\<open>isSyncRepoCommit(sdm)\<close>: no push test without sync options or without a sync
  repo, else the push test above.
\<close>

definition isSyncRepoCommit ::
  "(SyncRepo option \<Rightarrow> string) \<Rightarrow> (SoftwareDeliveryMachine \<Rightarrow> string) \<Rightarrow>
   SoftwareDeliveryMachine \<Rightarrow>
   (SoftwareDeliveryMachine \<Rightarrow> PushListenerInvocation \<Rightarrow> js_error + bool) option" where
  "isSyncRepoCommit stringify commitTag sdm =
     (case sync sdm of
        None \<Rightarrow> None
      | Some syncOptions \<Rightarrow>
          (case syncRepo syncOptions of
             None \<Rightarrow> None
           | Some _ \<Rightarrow> Some (IsSyncRepoCommit stringify commitTag)))"

section \<open>API clients: \<^verbatim>\<open>patchWithHeaders\<close>\<close>

text \<open>
  An API client object: its \<^verbatim>\<open>defaultHeaders\<close>, an object from header names to values
  in insertion order, and its other fields in the record's extension.
\<close>

record ApiClient =
  defaultHeaders :: "(string \<times> string) list"

text \<open>
  \<^verbatim>\<open>patchWithHeaders(api, patcher, ...args)\<close>.  The object spread followed by the
  \<^verbatim>\<open>"Content-Type"\<close> property is \<^const>\<open>AList.update\<close>: an existing entry keeps its place
  and takes the new value, a new entry goes last.  \<open>patcher\<close> is the client method
  called on the client as it is during the call; it returns a value or throws.  The
  assignment that puts the old headers back stands after the \<^verbatim>\<open>await\<close>, with no
  \<^verbatim>\<open>finally\<close>: it is skipped when the patcher throws.
\<close>

definition patchWithHeaders ::
  "'z ApiClient_scheme \<Rightarrow> ('z ApiClient_scheme \<Rightarrow> 'a list \<Rightarrow> js_error + 'r) \<Rightarrow> 'a list \<Rightarrow>
   (js_error + 'r) \<times> 'z ApiClient_scheme" where
  "patchWithHeaders api patcher args =
     (let oldDefaultHeaders = defaultHeaders api;
          api1 = api\<lparr>defaultHeaders :=
                   AList.update ''Content-Type'' ''application/strategic-merge-patch+json''
                     (defaultHeaders api)\<rparr>
      in case patcher api1 args of
           Inl e \<Rightarrow> (Inl e, api1)
         | Inr returnValue \<Rightarrow> (Inr returnValue, api1\<lparr>defaultHeaders := oldDefaultHeaders\<rparr>))"

text \<open>
  The nine overriding methods of the four \<^verbatim>\<open>_Patch\<close> classes share one body,
  \<^verbatim>\<open>return patchWithHeaders(this, super.patchX, args)\<close>: the rest parameter of
  \<open>patchWithHeaders\<close> receives the argument array as its single element.
\<close>

definition patchMethod ::
  "('z ApiClient_scheme \<Rightarrow> 'a list list \<Rightarrow> js_error + 'r) \<Rightarrow> 'z ApiClient_scheme \<Rightarrow> 'a list \<Rightarrow>
   (js_error + 'r) \<times> 'z ApiClient_scheme" where
  "patchMethod superPatch this args = patchWithHeaders this superPatch [args]"

section \<open>Applications: \<^verbatim>\<open>upsertApplication\<close> and \<^verbatim>\<open>deleteApplication\<close>\<close>

text \<open>
  \<^verbatim>\<open>KubernetesDelete\<close>: the fields the two functions read, \<^verbatim>\<open>ns\<close> and \<^verbatim>\<open>name\<close> (here
  \<open>reqName\<close>).  A \<^verbatim>\<open>KubernetesApplication\<close> extends it.
\<close>

record KubernetesDelete =
  ns :: string
  reqName :: string

datatype ResourceKind = Ingress | Deployment | Secrets | Service | Rbac

text \<open>
  The delete functions of the resource kinds, each given the clients made from the
  loaded configuration (\<open>'k\<close>), the request and the cluster (\<open>'c\<close>); each returns what it
  deleted or throws, and leaves the cluster changed.  \<^verbatim>\<open>deleteIngress\<close>,
  \<^verbatim>\<open>deleteDeployment\<close> and \<^verbatim>\<open>deleteService\<close> return one object or \<^verbatim>\<open>undefined\<close>,
  \<^verbatim>\<open>deleteSecrets\<close> and \<^verbatim>\<open>deleteRbac\<close> an array.
\<close>

record ('k, 'c) DeleteOps =
  deleteIngress :: "'k \<Rightarrow> KubernetesDelete \<Rightarrow> 'c \<Rightarrow> (js_error + KubernetesObject option) \<times> 'c"
  deleteDeployment :: "'k \<Rightarrow> KubernetesDelete \<Rightarrow> 'c \<Rightarrow> (js_error + KubernetesObject option) \<times> 'c"
  deleteSecrets :: "'k \<Rightarrow> KubernetesDelete \<Rightarrow> 'c \<Rightarrow> (js_error + KubernetesObject list) \<times> 'c"
  deleteService :: "'k \<Rightarrow> KubernetesDelete \<Rightarrow> 'c \<Rightarrow> (js_error + KubernetesObject option) \<times> 'c"
  deleteRbac :: "'k \<Rightarrow> KubernetesDelete \<Rightarrow> 'c \<Rightarrow> (js_error + KubernetesObject list) \<times> 'c"

text \<open>
  The variables of \<^verbatim>\<open>deleteApplication\<close> while it runs: the arrays \<^verbatim>\<open>deleted\<close> and
  \<^verbatim>\<open>errs\<close>, the cluster, and the resource kinds whose delete function was called so
  far, in call order.
\<close>

record 'c DeleteRun =
  deleted :: "KubernetesObject option list"
  errs :: "js_error list"
  cluster :: 'c
  attempted :: "ResourceKind list"

text \<open>
  One \<^verbatim>\<open>try { deleted.push(await deleteX(req)); } catch (e) { e.message = ...; errs.push(e); }\<close>
  block; \<open>pushed\<close> turns the returned value into the elements pushed.
\<close>

definition tryDelete ::
  "ResourceKind \<Rightarrow> string \<Rightarrow> ('c \<Rightarrow> (js_error + 'r) \<times> 'c) \<Rightarrow> ('r \<Rightarrow> KubernetesObject option list) \<Rightarrow>
   'c DeleteRun \<Rightarrow> 'c DeleteRun" where
  "tryDelete k pfx deleteX pushed run =
     (case deleteX (cluster run) of
        (Inr r, c) \<Rightarrow>
          run\<lparr>deleted := deleted run @ pushed r, cluster := c, attempted := attempted run @ [k]\<rparr>
      | (Inl e, c) \<Rightarrow>
          run\<lparr>errs := errs run @ [prefixMessage pfx e], cluster := c,
              attempted := attempted run @ [k]\<rparr>)"

definition truthyObjects :: "KubernetesObject option list \<Rightarrow> KubernetesObject list" where
  \<comment> \<open>\<^verbatim>\<open>.filter(d => !!d)\<close>\<close>
  "truthyObjects ds = List.map_filter (\<lambda>d. d) ds"

text \<open>
  \<^verbatim>\<open>deleteApplication(del)\<close>.  \<open>loadKubeConfig\<close> is the outcome of \<^verbatim>\<open>loadKubeConfig()\<close>
  followed by \<^verbatim>\<open>makeApiClients\<close>, \<open>reqString\<close> is \<^verbatim>\<open>reqString\<close> on the request (it
  leaves the clients out).  In the first \<^verbatim>\<open>catch\<close> the source calls
  \<^verbatim>\<open>e.message(...)\<close>: the message of a thrown error is a string, so the call throws a
  TypeError before anything is logged or rethrown.
\<close>

definition deleteApplication ::
  "(js_error + 'k) \<Rightarrow> (KubernetesDelete \<Rightarrow> string) \<Rightarrow> ('k, 'c) DeleteOps \<Rightarrow> KubernetesDelete \<Rightarrow> 'c \<Rightarrow>
   (js_error + KubernetesObject list) \<times> 'c DeleteRun" where
  "deleteApplication loadKubeConfig reqString ops del c =
     (let slug = ns del @ ''/'' @ reqName del;
          run0 = \<lparr>deleted = [], errs = [], cluster = c, attempted = []\<rparr>
      in case loadKubeConfig of
           Inl e \<Rightarrow> (Inl (TypeError ''e.message is not a function''), run0)
         | Inr clients \<Rightarrow>
             (let run1 = tryDelete Ingress (''Failed to delete ingress '' @ slug @ '': '')
                           (deleteIngress ops clients del) (\<lambda>d. [d]) run0;
                  run2 = tryDelete Deployment (''Failed to delete deployment '' @ slug @ '': '')
                           (deleteDeployment ops clients del) (\<lambda>d. [d]) run1;
                  run3 = tryDelete Secrets (''Failed to delete secrets of '' @ slug @ '': '')
                           (deleteSecrets ops clients del) (map Some) run2;
                  run4 = tryDelete Service (''Failed to delete service '' @ slug @ '': '')
                           (deleteService ops clients del) (\<lambda>d. [d]) run3;
                  run5 = tryDelete Rbac (''Failed to delete RBAC resources for '' @ slug @ '': '')
                           (deleteRbac ops clients del) (map Some) run4
              in if length (errs run5) > 0 then
                   (Inl (Error (''Failed to delete application '' @ [CHR 0x27] @ reqString del
                                @ [CHR 0x27] @ '': '' @ join ''; '' (map message (errs run5)))),
                    run5)
                 else (Inr (truthyObjects (deleted run5)), run5)))"

text \<open>
  \<^verbatim>\<open>upsertApplication(app, sdmFulfiller)\<close>.  The six upsert functions called in its
  \<^verbatim>\<open>try\<close> block are parameters, in call order (namespace, RBAC, service, secrets,
  deployment, ingress); each returns the bodies pushed onto \<^verbatim>\<open>k8sResources\<close> or throws.
\<close>

fun upsertSteps ::
  "('c \<Rightarrow> (js_error + KubernetesObject option list) \<times> 'c) list \<Rightarrow> KubernetesObject option list \<Rightarrow> 'c \<Rightarrow>
   (js_error + KubernetesObject option list) \<times> 'c" where
  "upsertSteps [] k8sResources c = (Inr k8sResources, c)"
| "upsertSteps (upsertX # rest) k8sResources c =
     (case upsertX c of
        (Inl e, c') \<Rightarrow> (Inl e, c')
      | (Inr bodies, c') \<Rightarrow> upsertSteps rest (k8sResources @ bodies) c')"

definition upsertApplication ::
  "(js_error + 'k) \<Rightarrow> (KubernetesDelete \<Rightarrow> string \<Rightarrow> string) \<Rightarrow>
   ('k \<Rightarrow> KubernetesDelete \<Rightarrow> string \<Rightarrow> 'c \<Rightarrow> (js_error + KubernetesObject option list) \<times> 'c) list \<Rightarrow>
   KubernetesDelete \<Rightarrow> string \<Rightarrow> 'c \<Rightarrow> (js_error + KubernetesObject list) \<times> 'c" where
  "upsertApplication loadKubeConfig reqString upserts app sdmFulfiller c =
     (case loadKubeConfig of
        Inl e \<Rightarrow>
          (Inl (prefixMessage (''Failed to load Kubernetes config to deploy '' @ ns app @ ''/''
                               @ reqName app @ '': '') e), c)
      | Inr clients \<Rightarrow>
          (case upsertSteps (map (\<lambda>upsertX. upsertX clients app sdmFulfiller) upserts) [] c of
             (Inl e, c') \<Rightarrow>
               (Inl (prefixMessage (''Failed to upsert '' @ [CHR 0x27] @ reqString app sdmFulfiller
                                    @ [CHR 0x27] @ '': '') e), c')
           | (Inr k8sResources, c') \<Rightarrow> (Inr (truthyObjects k8sResources), c')))"

text \<open>The error one delete call adds to \<^verbatim>\<open>errs\<close>: none when it returns.\<close>

definition failureOf :: "string \<Rightarrow> js_error + 'r \<Rightarrow> js_error list" where
  "failureOf pfx r = (case r of Inl e \<Rightarrow> [prefixMessage pfx e] | Inr _ \<Rightarrow> [])"

definition pushedOf :: "('r \<Rightarrow> KubernetesObject option list) \<Rightarrow> js_error + 'r \<Rightarrow> KubernetesObject option list" where
  "pushedOf pushed r = (case r of Inl _ \<Rightarrow> [] | Inr v \<Rightarrow> pushed v)"

section \<open>Secret cipher: \<^verbatim>\<open>encrypt\<close>, \<^verbatim>\<open>decrypt\<close> and \<^verbatim>\<open>deriveKey\<close>\<close>

text \<open>
  The cipher takes any JavaScript string: here a string is the list of its UTF-16 code
  units, and a buffer is a list of bytes.
\<close>

type_synonym bytes = "8 word list"

type_synonym ustring = "16 word list"

text \<open>
  \<^verbatim>\<open>cipher.update(text)\<close> takes the string as UTF-8, as \<^verbatim>\<open>Buffer.from(text, "utf8")\<close>
  does: a code unit outside the surrogate range is a code point, a high surrogate
  followed by a low surrogate is the code point of the pair, and a surrogate that is
  not part of such a pair is encoded as U+FFFD (the bytes EF BF BD).
\<close>

definition isHighSurrogate :: "nat \<Rightarrow> bool" where
  "isHighSurrogate c = (0xD800 \<le> c \<and> c < 0xDC00)"

definition isLowSurrogate :: "nat \<Rightarrow> bool" where
  "isLowSurrogate c = (0xDC00 \<le> c \<and> c < 0xE000)"

definition utf8OfCodePoint :: "nat \<Rightarrow> nat list" where
  "utf8OfCodePoint c =
     (if c < 0x80 then [c]
      else if c < 0x800 then [0xC0 + c div 0x40, 0x80 + c mod 0x40]
      else if c < 0x10000 then [0xE0 + c div 0x1000, 0x80 + c div 0x40 mod 0x40, 0x80 + c mod 0x40]
      else [0xF0 + c div 0x40000, 0x80 + c div 0x1000 mod 0x40, 0x80 + c div 0x40 mod 0x40,
            0x80 + c mod 0x40])"

definition replacementBytes :: "nat list" where
  "replacementBytes = [0xEF, 0xBF, 0xBD]"

fun utf8Units :: "nat list \<Rightarrow> nat list" where
  "utf8Units [] = []"
| "utf8Units [u] =
     (if isHighSurrogate u \<or> isLowSurrogate u then replacementBytes else utf8OfCodePoint u)"
| "utf8Units (u # v # us) =
     (if isHighSurrogate u then
        (if isLowSurrogate v
         then utf8OfCodePoint (0x10000 + (u - 0xD800) * 0x400 + (v - 0xDC00)) @ utf8Units us
         else replacementBytes @ utf8Units (v # us))
      else if isLowSurrogate u then replacementBytes @ utf8Units (v # us)
      else utf8OfCodePoint u @ utf8Units (v # us))"

definition utf8Encode :: "ustring \<Rightarrow> bytes" where
  "utf8Encode t = map of_nat (utf8Units (map unat t))"

text \<open>A string is well formed when it has no surrogate outside a pair.\<close>

fun wellFormedUnits :: "nat list \<Rightarrow> bool" where
  "wellFormedUnits [] = True"
| "wellFormedUnits [u] = (\<not> isHighSurrogate u \<and> \<not> isLowSurrogate u)"
| "wellFormedUnits (u # v # us) =
     (if isHighSurrogate u then isLowSurrogate v \<and> wellFormedUnits us
      else \<not> isLowSurrogate u \<and> wellFormedUnits (v # us))"

definition wellFormed :: "ustring \<Rightarrow> bool" where
  "wellFormed t = wellFormedUnits (map unat t)"

text \<open>
  The other primitives of Node's \<^verbatim>\<open>crypto\<close> and \<^verbatim>\<open>Buffer\<close> the cipher calls, as
  parameters: \<^verbatim>\<open>crypto.scrypt(password, salt, keylen)\<close>;
  \<^verbatim>\<open>createCipheriv("aes-256-cbc", key, iv)\<close> followed by \<^verbatim>\<open>update\<close> and \<^verbatim>\<open>final\<close>, and
  the same for \<^verbatim>\<open>createDecipheriv\<close> (both throw on a key or IV of the wrong length, the
  second also on bad padding); \<^verbatim>\<open>buffer.toString("utf8")\<close>; base64 encoding and
  decoding.
\<close>

record Crypto =
  scrypt :: "ustring \<Rightarrow> ustring \<Rightarrow> nat \<Rightarrow> bytes"
  cipher :: "bytes \<Rightarrow> bytes \<Rightarrow> bytes \<Rightarrow> js_error + bytes"
  decipher :: "bytes \<Rightarrow> bytes \<Rightarrow> bytes \<Rightarrow> js_error + bytes"
  utf8String :: "bytes \<Rightarrow> ustring"
  base64 :: "bytes \<Rightarrow> ustring"
  fromBase64 :: "ustring \<Rightarrow> bytes"

text \<open>\<^verbatim>\<open>buffer.toString("hex")\<close>: two lowercase hexadecimal digits per byte.\<close>

definition hexDigit :: "nat \<Rightarrow> 16 word" where
  "hexDigit n = (if n < 10 then of_nat (48 + n) else of_nat (87 + n))"

definition hexString :: "bytes \<Rightarrow> ustring" where
  "hexString bs = concat (map (\<lambda>b. [hexDigit (unat b div 16), hexDigit (unat b mod 16)]) bs)"

definition repeat :: "'a list \<Rightarrow> nat \<Rightarrow> 'a list" where
  \<comment> \<open>\<^verbatim>\<open>String.prototype.repeat\<close> with a finite count\<close>
  "repeat s n = concat (replicate n s)"

text \<open>
  The salt of \<^verbatim>\<open>deriveKey\<close>:
  \<^verbatim>\<open>key.repeat(Math.floor(saltLength / key.length) + 1).substring(0, saltLength)\<close>.
  For the empty key the count is infinite and \<^verbatim>\<open>repeat\<close> throws a RangeError.
\<close>

definition saltOf :: "ustring \<Rightarrow> ustring" where
  "saltOf key = take 16 (repeat key (16 div length key + 1))"

definition deriveKey :: "Crypto \<Rightarrow> ustring \<Rightarrow> nat \<Rightarrow> js_error + bytes" where
  "deriveKey cr key len =
     (if length key = 0 then Inl (RangeError ''Invalid count value'')
      else Inr (scrypt cr key (saltOf key) len))"

definition encrypt :: "Crypto \<Rightarrow> ustring \<Rightarrow> ustring \<Rightarrow> js_error + ustring" where
  "encrypt cr text key =
     (case deriveKey cr key 32 of
        Inl e \<Rightarrow> Inl e
      | Inr derivedKey \<Rightarrow>
          (case deriveKey cr (hexString derivedKey) 16 of
             Inl e \<Rightarrow> Inl e
           | Inr iv \<Rightarrow>
               (case cipher cr derivedKey iv (utf8Encode text) of
                  Inl e \<Rightarrow> Inl e
                | Inr encrypted \<Rightarrow> Inr (base64 cr encrypted))))"

definition decrypt :: "Crypto \<Rightarrow> ustring \<Rightarrow> ustring \<Rightarrow> js_error + ustring" where
  "decrypt cr text key =
     (case deriveKey cr key 32 of
        Inl e \<Rightarrow> Inl e
      | Inr derivedKey \<Rightarrow>
          (case deriveKey cr (hexString derivedKey) 16 of
             Inl e \<Rightarrow> Inl e
           | Inr iv \<Rightarrow>
               (case decipher cr derivedKey iv (fromBase64 cr text) of
                  Inl e \<Rightarrow> Inl e
                | Inr decrypted \<Rightarrow> Inr (utf8String cr decrypted))))"

definition roundTrip :: "Crypto \<Rightarrow> ustring \<Rightarrow> ustring \<Rightarrow> js_error + ustring" where
  \<comment> \<open>\<^verbatim>\<open>decrypt(await encrypt(text, key), key)\<close>\<close>
  "roundTrip cr text key =
     (case encrypt cr text key of
        Inl e \<Rightarrow> Inl e
      | Inr encrypted \<Rightarrow> decrypt cr encrypted key)"

text \<open>
  What the cipher relies on from the library: \<^verbatim>\<open>scrypt\<close> returns as many bytes as asked
  for; with a 32-byte key and a 16-byte IV the cipher returns a ciphertext that the
  decipher, given the same key and IV, turns back into the plaintext; base64 decoding
  inverts base64 encoding; decoding the UTF-8 encoding of a well-formed string gives the
  string back.
\<close>

definition cryptoLaws :: "Crypto \<Rightarrow> bool" where
  "cryptoLaws cr =
     ((\<forall>k s n. length (scrypt cr k s n) = n)
      \<and> (\<forall>k iv bs. length k = 32 \<and> length iv = 16 \<longrightarrow>
            (\<exists>ct. cipher cr k iv bs = Inr ct \<and> decipher cr k iv ct = Inr bs))
      \<and> (\<forall>bs. fromBase64 cr (base64 cr bs) = bs)
      \<and> (\<forall>t. wellFormed t \<longrightarrow> utf8String cr (utf8Encode t) = t))"

section \<open>Change extractor: \<^verbatim>\<open>parseNameStatusDiff\<close>\<close>

datatype ChangeType = ChangeApply | ChangeDelete

text \<open>
  \<^verbatim>\<open>interface PushDiff { change: ChangeType; path: string; sha: string; }\<close> (the fields
  \<^verbatim>\<open>path\<close> and \<^verbatim>\<open>sha\<close> are \<open>diffPath\<close> and \<open>diffSha\<close> here).
\<close>

record PushDiff =
  diffSha :: string
  change :: ChangeType
  diffPath :: string

text \<open>\<^verbatim>\<open>String.prototype.split\<close> on a one-character separator.\<close>

fun splitOn :: "char \<Rightarrow> string \<Rightarrow> string list" where
  "splitOn sep [] = [[]]"
| "splitOn sep (c # cs) =
     (if c = sep then [] # splitOn sep cs
      else (case splitOn sep cs of
              [] \<Rightarrow> [[c]]
            | w # ws \<Rightarrow> (c # w) # ws))"

text \<open>
  Modelled from the spec: \<^verbatim>\<open>k8sSpecGlob\<close> of \<^verbatim>\<open>lib/sync/diff\<close> is missing from \<^verbatim>\<open>src/\<close>.
  A spec file is a file at the root of the repository with the extension
  \<^verbatim>\<open>.json\<close>, \<^verbatim>\<open>.yaml\<close> or \<^verbatim>\<open>.yml\<close>.
\<close>

definition isSpecPath :: "string \<Rightarrow> bool" where
  "isSpecPath p =
     (CHR ''/'' \<notin> set p \<and> (suffix ''.json'' p \<or> suffix ''.yaml'' p \<or> suffix ''.yml'' p))"

text \<open>
  Modelled from the spec: \<^verbatim>\<open>parseNameStatusDiff\<close> of \<^verbatim>\<open>lib/sync/diff\<close> is missing from
  \<^verbatim>\<open>src/\<close>; only its tests are there.  The input is the output of
  \<^verbatim>\<open>git diff --name-status -z --no-renames\<close>: a status, a NUL, a path and a NUL for each
  changed file.  Status \<^verbatim>\<open>D\<close> gives the change \<^verbatim>\<open>delete\<close>, the statuses \<^verbatim>\<open>A\<close> and
  \<^verbatim>\<open>M\<close> (and \<^verbatim>\<open>C\<close> and \<^verbatim>\<open>R\<close>, with any similarity score after them) give \<^verbatim>\<open>apply\<close>;
  any other record is skipped, and so is a path that is not a spec file.  The order of
  the result is the one the assertions of \<^verbatim>\<open>src/test/sync/diff.test.ts\<close> fix: the
  deletes sorted by path, then the applies sorted by path.
\<close>

fun nameStatusRecords :: "string list \<Rightarrow> (string \<times> string) list" where
  "nameStatusRecords (status # p # rest) = (status, p) # nameStatusRecords rest"
| "nameStatusRecords rest = []"

definition changeOfStatus :: "string \<Rightarrow> ChangeType option" where
  "changeOfStatus status =
     (case status of
        [] \<Rightarrow> None
      | c # _ \<Rightarrow>
          if c = CHR ''D'' then Some ChangeDelete
          else if c \<in> set ''AMCR'' then Some ChangeApply
          else None)"

definition changesOf :: "string \<Rightarrow> (string \<times> string) list \<Rightarrow> PushDiff list" where
  "changesOf s recs =
     List.map_filter
       (\<lambda>(status, p).
          case changeOfStatus status of
            None \<Rightarrow> None
          | Some ch \<Rightarrow> if isSpecPath p then Some \<lparr>diffSha = s, change = ch, diffPath = p\<rparr> else None)
       recs"

definition parseNameStatusDiff :: "string \<Rightarrow> string \<Rightarrow> PushDiff list" where
  "parseNameStatusDiff s diff =
     (let changes = changesOf s (nameStatusRecords (splitOn (CHR 0x00) diff))
      in sort_key diffPath (filter (\<lambda>c. change c = ChangeDelete) changes)
         @ sort_key diffPath (filter (\<lambda>c. change c = ChangeApply) changes))"

text \<open>
  The order of the result in the words of the specification: the changes of the commit
  sorted by path, whatever their kind.
\<close>

definition parseNameStatusDiff_spec :: "string \<Rightarrow> string \<Rightarrow> PushDiff list" where
  "parseNameStatusDiff_spec s diff =
     sort_key diffPath (changesOf s (nameStatusRecords (splitOn (CHR 0x00) diff)))"

section \<open>Reverse sync writer: \<^verbatim>\<open>syncApplication\<close> and \<^verbatim>\<open>syncResources\<close>\<close>

text \<open>\<^verbatim>\<open>type SyncAction = "upsert" | "delete"\<close>\<close>

datatype SyncAction = Upsert | Delete

text \<open>
  The project of the automation client, as the operations the writer calls on it, over
  a project state \<open>'p\<close>: the files that match \<^verbatim>\<open>k8sSpecGlob\<close> in the order
  \<^verbatim>\<open>doWithFiles\<close> visits them, whether \<^verbatim>\<open>getFile\<close> finds a file, \<^verbatim>\<open>addFile\<close>,
  \<^verbatim>\<open>deleteFile\<close>, \<^verbatim>\<open>setContent\<close> of the file at a path, \<^verbatim>\<open>isClean\<close>, and \<^verbatim>\<open>commit\<close> and
  \<^verbatim>\<open>push\<close>, which may throw.
\<close>

record 'p GitProject =
  specFiles :: "'p \<Rightarrow> ProjectFile list"
  getFile :: "'p \<Rightarrow> string \<Rightarrow> bool"
  addFile :: "string \<Rightarrow> string \<Rightarrow> 'p \<Rightarrow> 'p"
  deleteFile :: "string \<Rightarrow> 'p \<Rightarrow> 'p"
  setContent :: "string \<Rightarrow> string \<Rightarrow> 'p \<Rightarrow> 'p"
  isClean :: "'p \<Rightarrow> bool"
  commit :: "string \<Rightarrow> 'p \<Rightarrow> js_error + 'p"
  push :: "'p \<Rightarrow> js_error + 'p"

text \<open>
  What the writer takes from outside its file: the project operations, the parser of
  spec files (\<^verbatim>\<open>parseKubernetesSpecFile\<close>), the two printers (\<^verbatim>\<open>json-stringify-safe\<close>
  with indentation 2 and \<^verbatim>\<open>yaml.safeDump\<close>), \<^verbatim>\<open>appName\<close> and the value of
  \<^verbatim>\<open>commitTag()\<close>.
\<close>

record 'p SyncEnv =
  gitProject :: "'p GitProject"
  parseKubernetesSpecFile :: "ProjectFile \<Rightarrow> js_error + KubernetesObject"
  stringify :: "KubernetesObject \<Rightarrow> string"
  safeDump :: "KubernetesObject \<Rightarrow> string"
  appName :: "KubernetesDelete \<Rightarrow> string"
  commitTag :: string

text \<open>The calls that change the project or its repository, as the writer makes them.\<close>

datatype ProjectCall =
    SetContent string string
  | AddFile string string
  | DeleteFile string
  | GitCommit string
  | GitPush

text \<open>
  The state of one run: the project, the calls made so far in order, and the values the
  coming calls of \<^verbatim>\<open>guid()\<close> return.
\<close>

record 'p SyncRun =
  project :: 'p
  calls :: "ProjectCall list"
  guids :: "string list"

text \<open>
  The first part of \<open>syncResources\<close>: every spec file is parsed; a file that does not
  parse is logged and left out.
\<close>

definition loadSpecs :: "'p SyncEnv \<Rightarrow> 'p \<Rightarrow> ProjectFileSpec list" where
  "loadSpecs env p =
     List.map_filter
       (\<lambda>f. case parseKubernetesSpecFile env f of
               Inl e \<Rightarrow> None
             | Inr s \<Rightarrow> Some \<lparr>specFile = f, spec = s\<rparr>)
       (specFiles (gitProject env) p)"

definition stringifySpec :: "'p SyncEnv \<Rightarrow> KubernetesObject \<Rightarrow> string" where
  "stringifySpec env r = stringify env r @ [CHR 0x0A]"

definition isYamlPath :: "string \<Rightarrow> bool" where
  \<comment> \<open>\<^verbatim>\<open>/\.ya?ml$/.test(path)\<close>\<close>
  "isYamlPath p = (suffix ''.yaml'' p \<or> suffix ''.yml'' p)"

text \<open>
  The \<^verbatim>\<open>while (await p.getFile(specPath))\<close> loop of \<open>resourceUpserted\<close>.  Each turn takes
  the next value of \<^verbatim>\<open>guid()\<close>; the loop has not ended when they run out (\<open>None\<close>).
\<close>

fun freeSpecPath ::
  "'p GitProject \<Rightarrow> 'p \<Rightarrow> string \<Rightarrow> string \<Rightarrow> string \<Rightarrow> string list \<Rightarrow> (string \<times> string list) option" where
  "freeSpecPath ops p specRoot specExt specPath [] =
     (if getFile ops p specPath then None else Some (specPath, []))"
| "freeSpecPath ops p specRoot specExt specPath (g # gs) =
     (if getFile ops p specPath then
        freeSpecPath ops p specRoot specExt
          (specRoot @ ''-'' @ (case splitOn (CHR ''-'') g of [] \<Rightarrow> ''undefined'' | w # _ \<Rightarrow> w) @ specExt)
          gs
      else Some (specPath, g # gs))"

definition resourceUpserted ::
  "'p SyncEnv \<Rightarrow> KubernetesObject \<Rightarrow> 'p SyncRun \<Rightarrow> ProjectFileSpec option \<Rightarrow>
   ((js_error + unit) \<times> 'p SyncRun) option" where
  "resourceUpserted env resource run fs =
     (case fs of
        Some f \<Rightarrow>
          (let specString = (if isYamlPath (path (specFile f)) then safeDump env resource
                             else stringifySpec env resource)
           in Some (Inr (),
                run\<lparr>project := setContent (gitProject env) (path (specFile f)) specString (project run),
                    calls := calls run @ [SetContent (path (specFile f)) specString]\<rparr>))
      | None \<Rightarrow>
          (case specFileBasename resource of
             Inl e \<Rightarrow> Some (Inl e, run)
           | Inr specRoot \<Rightarrow>
               (let specExt = ''.json'' in
                case freeSpecPath (gitProject env) (project run) specRoot specExt
                       (specRoot @ specExt) (guids run) of
                  None \<Rightarrow> None
                | Some (specPath, rest) \<Rightarrow>
                    Some (Inr (),
                      run\<lparr>project := addFile (gitProject env) specPath (stringifySpec env resource)
                                        (project run),
                          calls := calls run @ [AddFile specPath (stringifySpec env resource)],
                          guids := rest\<rparr>))))"

definition resourceDeleted ::
  "'p SyncEnv \<Rightarrow> KubernetesObject \<Rightarrow> 'p SyncRun \<Rightarrow> ProjectFileSpec option \<Rightarrow>
   ((js_error + unit) \<times> 'p SyncRun) option" where
  "resourceDeleted env resource run fs =
     (case fs of
        Some f \<Rightarrow>
          Some (Inr (),
            run\<lparr>project := deleteFile (gitProject env) (path (specFile f)) (project run),
                calls := calls run @ [DeleteFile (path (specFile f))]\<rparr>)
      | None \<Rightarrow> Some (Inr (), run))"

text \<open>
  The \<^verbatim>\<open>for (const resource of resources)\<close> loop of \<open>syncResources\<close>.  \<open>specs\<close> is read
  once, before the loop.
\<close>

fun syncEach ::
  "'p SyncEnv \<Rightarrow> SyncAction \<Rightarrow> ProjectFileSpec list \<Rightarrow> KubernetesObject list \<Rightarrow> 'p SyncRun \<Rightarrow>
   ((js_error + unit) \<times> 'p SyncRun) option" where
  "syncEach env action specs [] run = Some (Inr (), run)"
| "syncEach env action specs (resource # rest) run =
     (case matchSpec resource specs of
        Inl e \<Rightarrow> Some (Inl e, run)
      | Inr fileSpec \<Rightarrow>
          (case (if action = Delete then resourceDeleted env resource run fileSpec
                 else resourceUpserted env resource run fileSpec) of
             None \<Rightarrow> None
           | Some (Inl e, run') \<Rightarrow> Some (Inl e, run')
           | Some (Inr u, run') \<Rightarrow> syncEach env action specs rest run'))"

definition commitMessageOf :: "'p SyncEnv \<Rightarrow> KubernetesDelete \<Rightarrow> SyncAction \<Rightarrow> string" where
  \<comment> \<open>\<^verbatim>\<open>`${syncVerb} specs for ${appName(app)}\n\n[atomist:generated] ${commitTag()}\n`\<close>\<close>
  "commitMessageOf env app action =
     (if action = Delete then ''Delete'' else ''Update'') @ '' specs for '' @ appName env app
     @ [CHR 0x0A, CHR 0x0A] @ ''[atomist:generated] '' @ commitTag env @ [CHR 0x0A]"

definition syncResources ::
  "'p SyncEnv \<Rightarrow> KubernetesDelete \<Rightarrow> KubernetesObject list \<Rightarrow> SyncAction \<Rightarrow> 'p SyncRun \<Rightarrow>
   ((js_error + unit) \<times> 'p SyncRun) option" where
  "syncResources env app resources action run0 =
     (let specs = loadSpecs env (project run0) in
      case syncEach env action specs resources run0 of
        None \<Rightarrow> None
      | Some (Inl e, run) \<Rightarrow> Some (Inl e, run)
      | Some (Inr u, run) \<Rightarrow>
          if isClean (gitProject env) (project run) then Some (Inr (), run)
          else
            (let msg = commitMessageOf env app action;
                 failed = ''Failed to commit and push resource changes to sync repo: ''
             in case commit (gitProject env) msg (project run) of
                  Inl e \<Rightarrow>
                    Some (Inl (prefixMessage failed e), run\<lparr>calls := calls run @ [GitCommit msg]\<rparr>)
                | Inr p1 \<Rightarrow>
                    (case push (gitProject env) p1 of
                       Inl e \<Rightarrow>
                         Some (Inl (prefixMessage failed e),
                           run\<lparr>project := p1, calls := calls run @ [GitCommit msg, GitPush]\<rparr>)
                     | Inr p2 \<Rightarrow>
                         Some (Inr (),
                           run\<lparr>project := p2, calls := calls run @ [GitCommit msg, GitPush]\<rparr>))))"

definition repoSlug :: "SyncRepo \<Rightarrow> string" where
  \<comment> \<open>\<^verbatim>\<open>`${syncRepo.owner}/${syncRepo.repo}`\<close>\<close>
  "repoSlug r = (case r of Unresolved o' n b \<Rightarrow> o' @ ''/'' @ n
                 | Resolved rr \<Rightarrow> owner rr @ ''/'' @ repo rr)"

text \<open>
  \<^verbatim>\<open>syncApplication(app, resources, action)\<close>.  The sync options are read with
  \<^verbatim>\<open>configurationValue("sdm.k8s.options.sync", undefined)\<close>, which throws when the
  configuration has no value at the path and no default is given; the call stands
  outside the \<^verbatim>\<open>try\<close>.  \<open>run0\<close> holds the project the project loader cloned.  Nothing in
  the function or in \<open>syncResources\<close> reads the \<open>secretKey\<close> of the options.
\<close>

definition syncApplication ::
  "'p SyncEnv \<Rightarrow> SoftwareDeliveryMachine \<Rightarrow> KubernetesDelete \<Rightarrow> KubernetesObject list \<Rightarrow> SyncAction \<Rightarrow>
   'p SyncRun \<Rightarrow> ((js_error + unit) \<times> 'p SyncRun) option" where
  "syncApplication env sdm app resources action run0 =
     (let slug = appName env app in
      case sync sdm of
        None \<Rightarrow>
          Some (Inl (Error (''Required @Value '' @ [CHR 0x27] @ ''sdm.k8s.options.sync''
                            @ [CHR 0x27] @ '' not available'')), run0)
      | Some syncOptions \<Rightarrow>
          (case syncRepo syncOptions of
             None \<Rightarrow> Some (Inr (), run0)
           | Some repoRef \<Rightarrow>
               if length resources < 1 then Some (Inr (), run0)
               else
                 (case syncResources env app resources action run0 of
                    None \<Rightarrow> None
                  | Some (Inl e, run) \<Rightarrow>
                      Some (Inl (prefixMessage
                                   (''Failed to perform sync resources from '' @ slug
                                    @ '' to sync repo '' @ repoSlug repoRef @ '': '') e), run)
                  | Some (Inr u, run) \<Rightarrow> Some (Inr (), run))))"

definition isGitCall :: "ProjectCall \<Rightarrow> bool" where
  "isGitCall c = (case c of GitCommit m \<Rightarrow> True | GitPush \<Rightarrow> True | _ \<Rightarrow> False)"

section \<open>Example resources and spec stores\<close>

definition meta :: "string \<Rightarrow> string option \<Rightarrow> ObjectMeta" where
  "meta n nsp = \<lparr>name = Some n, namespace = nsp, labels = []\<rparr>"

definition resource :: "string \<Rightarrow> string \<Rightarrow> string \<Rightarrow> string option \<Rightarrow> KubernetesObject" where
  "resource av k n nsp = \<lparr>apiVersion = Some av, kind = Some k, metadata = Some (meta n nsp), data = []\<rparr>"


definition serviceAccount_web :: KubernetesObject where
  "serviceAccount_web = resource ''v1'' ''ServiceAccount'' ''web'' (Some ''default'')"

definition clusterRole_Admin :: KubernetesObject where
  "clusterRole_Admin = resource ''rbac.authorization.k8s.io/v1'' ''ClusterRole'' ''Admin'' None"

text \<open>Resources of the tests of \<open>specFileBasename\<close> in \<^verbatim>\<open>src/test/sync/diff.test.ts\<close>.\<close>

definition namespace_lyle :: KubernetesObject where
  "namespace_lyle = resource ''v1'' ''Namespace'' ''lyle'' None"

definition deployment_lyle :: KubernetesObject where
  "deployment_lyle = resource ''apps/v1'' ''Deployment'' ''lyle'' (Some ''lovett'')"

definition serviceAccount_lyle :: KubernetesObject where
  "serviceAccount_lyle = resource ''v1'' ''ServiceAccount'' ''lyle'' (Some ''lovett'')"

definition clusterRole_lyle :: KubernetesObject where
  "clusterRole_lyle = resource ''rbac.authorization.k8s.io/v1'' ''ClusterRole'' ''lyle'' None"



definition repo_specs :: RemoteRepoRef where
  "repo_specs = \<lparr>providerType = github_com, owner = ''atomist'', repo = ''specs'', branch = Some ''master''\<rparr>"

definition sdm_resolved :: SoftwareDeliveryMachine where
  "sdm_resolved = \<lparr>sync = Some \<lparr>syncRepo = Some (Resolved repo_specs), secretKey = None\<rparr>\<rparr>"

definition sdm_unresolved :: SoftwareDeliveryMachine where
  "sdm_unresolved =
     \<lparr>sync = Some \<lparr>syncRepo = Some (Unresolved ''atomist'' ''specs'' (Some ''master'')), secretKey = None\<rparr>\<rparr>"

definition tag_test :: string where
  "tag_test = ''[atomist:commit:test]''"

definition commit_generated :: Commit where
  "commit_generated = \<lparr>sha = ''af496fa'', commitMessage = ''Update specs for default/web [atomist:generated] [atomist:commit:test]''\<rparr>"

definition commit_manual :: Commit where
  "commit_manual = \<lparr>sha = ''778197e'', commitMessage = ''Update, add, delete files''\<rparr>"

text \<open>A client with no default headers, and a patch operation the API server rejects.\<close>

definition client_plain :: ApiClient where
  "client_plain = \<lparr>defaultHeaders = []\<rparr>"

definition patch_rejected :: "ApiClient \<Rightarrow> string list list \<Rightarrow> js_error + KubernetesObject" where
  "patch_rejected api args = Inl (Error ''Unprocessable Entity'')"

definition push_mixed :: PushListenerInvocation where
  "push_mixed = \<lparr>pushId = repo_specs, commits = [commit_generated, commit_manual]\<rparr>"

definition push_generated :: PushListenerInvocation where
  "push_generated = \<lparr>pushId = repo_specs, commits = [commit_generated]\<rparr>"

definition push_other_branch :: PushListenerInvocation where
  "push_other_branch = \<lparr>pushId = repo_specs\<lparr>branch := None\<rparr>, commits = [commit_manual]\<rparr>"

text \<open>
  A cluster is the list of the kinds deleted so far.  In \<open>ops_failing fails\<close> the delete
  function of a kind throws when the kind is in \<open>fails\<close> and deletes one object
  otherwise.
\<close>

definition del_web :: KubernetesDelete where
  "del_web = \<lparr>ns = ''default'', reqName = ''web''\<rparr>"

definition kindName :: "ResourceKind \<Rightarrow> string" where
  "kindName k = (case k of Ingress \<Rightarrow> ''Ingress'' | Deployment \<Rightarrow> ''Deployment''
     | Secrets \<Rightarrow> ''Secret'' | Service \<Rightarrow> ''Service'' | Rbac \<Rightarrow> ''Role'')"

definition failing1 ::
  "ResourceKind list \<Rightarrow> ResourceKind \<Rightarrow> unit \<Rightarrow> KubernetesDelete \<Rightarrow> ResourceKind list \<Rightarrow>
   (js_error + KubernetesObject option) \<times> ResourceKind list" where
  "failing1 fails k clients del c =
     (if k \<in> set fails then (Inl (Error (''timeout '' @ kindName k)), c)
      else (Inr (Some (resource ''v1'' (kindName k) (reqName del) (Some (ns del)))), c @ [k]))"

definition failingN ::
  "ResourceKind list \<Rightarrow> ResourceKind \<Rightarrow> unit \<Rightarrow> KubernetesDelete \<Rightarrow> ResourceKind list \<Rightarrow>
   (js_error + KubernetesObject list) \<times> ResourceKind list" where
  "failingN fails k clients del c =
     (if k \<in> set fails then (Inl (Error (''timeout '' @ kindName k)), c)
      else (Inr [resource ''v1'' (kindName k) (reqName del) (Some (ns del))], c @ [k]))"

definition ops_failing :: "ResourceKind list \<Rightarrow> (unit, ResourceKind list) DeleteOps" where
  "ops_failing fails =
     \<lparr>deleteIngress = failing1 fails Ingress, deleteDeployment = failing1 fails Deployment,
      deleteSecrets = failingN fails Secrets, deleteService = failing1 fails Service,
      deleteRbac = failingN fails Rbac\<rparr>"

text \<open>
  Stand-ins for the library primitives that satisfy \<open>cryptoLaws\<close>: the cipher adds the
  first key byte and the first IV byte to every byte, base64 is bytewise, and the
  decoder reads the one- to four-byte sequences of UTF-8 without checking them.
\<close>

fun unitsOfUtf8 :: "nat list \<Rightarrow> nat list" where
  "unitsOfUtf8 [] = []"
| "unitsOfUtf8 (b0 # bs) =
     (if b0 < 0x80 then b0 # unitsOfUtf8 bs
      else if b0 < 0xE0 then
        (case bs of
           b1 # r \<Rightarrow> ((b0 - 0xC0) * 0x40 + (b1 - 0x80)) # unitsOfUtf8 r
         | _ \<Rightarrow> [0xFFFD])
      else if b0 < 0xF0 then
        (case bs of
           b1 # b2 # r \<Rightarrow> ((b0 - 0xE0) * 0x1000 + (b1 - 0x80) * 0x40 + (b2 - 0x80)) # unitsOfUtf8 r
         | _ \<Rightarrow> [0xFFFD])
      else
        (case bs of
           b1 # b2 # b3 # r \<Rightarrow>
             (let c = (b0 - 0xF0) * 0x40000 + (b1 - 0x80) * 0x1000 + (b2 - 0x80) * 0x40 + (b3 - 0x80)
                      - 0x10000
              in (0xD800 + c div 0x400) # (0xDC00 + c mod 0x400) # unitsOfUtf8 r)
         | _ \<Rightarrow> [0xFFFD]))"

definition byteOf :: "16 word \<Rightarrow> 8 word" where
  "byteOf c = of_nat (unat c)"

definition unitOf :: "8 word \<Rightarrow> 16 word" where
  "unitOf b = of_nat (unat b)"

definition crypto_toy :: Crypto where
  "crypto_toy =
     \<lparr>scrypt = (\<lambda>k s n. replicate n (of_nat (length k + length s))),
      cipher = (\<lambda>k iv bs. Inr (map (\<lambda>b. b + hd k + hd iv) bs)),
      decipher = (\<lambda>k iv bs. Inr (map (\<lambda>b. b - hd k - hd iv) bs)),
      utf8String = (\<lambda>bs. map of_nat (unitsOfUtf8 (map unat bs))),
      base64 = map unitOf,
      fromBase64 = map byteOf\<rparr>"

definition ustr :: "string \<Rightarrow> ustring" where
  \<comment> \<open>the string of the code units of an ASCII text\<close>
  "ustr cs = map (\<lambda>c. of_nat (of_char c)) cs"

text \<open>A string that is one high surrogate, and the string that is U+FFFD.\<close>

definition text_lone_surrogate :: ustring where
  "text_lone_surrogate = [0xD800]"

definition text_replacement :: ustring where
  "text_replacement = [0xFFFD]"

text \<open>
  The inputs and the expected results of the three tests of \<^verbatim>\<open>parseNameStatusDiff\<close> in
  \<^verbatim>\<open>src/test/sync/diff.test.ts\<close>.
\<close>

definition test_sha :: string where
  "test_sha = ''87c6ba8a3e2e3961d318fa8c50885b1ca0c4e1dc''"

definition nul :: string where
  "nul = [CHR 0x00]"

definition test_nothing :: "string list" where
  "test_nothing = ['''', [CHR 0x0A], nul, nul @ [CHR 0x0A]]"

definition test_valid_input :: string where
  "test_valid_input =
     concat [''D'', nul, ''a.yaml'', nul, ''A'', nul, ''aa.json'', nul, ''D'', nul, ''b.yml'', nul,
             ''A'', nul, ''d.json'', nul, ''M'', nul, ''e.json'', nul, ''A'', nul, ''fyml'', nul,
             ''A'', nul, ''i/j/k/l.json'', nul, ''A'', nul, ''s t.json'', nul,
             ''M'', nul, ''x.yaml'', nul]"

definition test_sort_input :: string where
  "test_sort_input =
     concat [''D'', nul, ''a.yaml'', nul, ''A'', nul, ''s t.json'', nul, ''D'', nul, ''b.yml'', nul,
             ''A'', nul, ''d.json'', nul, ''M'', nul, ''e.json'', nul, ''A'', nul, ''aa.json'', nul,
             ''A'', nul, ''i/j/k/l.json'', nul, ''M'', nul, ''x.yaml'', nul, ''A'', nul, ''f'', nul]"

definition test_expected :: "PushDiff list" where
  "test_expected =
     [\<lparr>diffSha = test_sha, change = ChangeDelete, diffPath = ''a.yaml''\<rparr>,
      \<lparr>diffSha = test_sha, change = ChangeDelete, diffPath = ''b.yml''\<rparr>,
      \<lparr>diffSha = test_sha, change = ChangeApply, diffPath = ''aa.json''\<rparr>,
      \<lparr>diffSha = test_sha, change = ChangeApply, diffPath = ''d.json''\<rparr>,
      \<lparr>diffSha = test_sha, change = ChangeApply, diffPath = ''e.json''\<rparr>,
      \<lparr>diffSha = test_sha, change = ChangeApply, diffPath = ''s t.json''\<rparr>,
      \<lparr>diffSha = test_sha, change = ChangeApply, diffPath = ''x.yaml''\<rparr>]"

text \<open>
  A project in memory: the files of the working copy, the files of the last commit, and
  the error the remote answers a push with, if any.  A commit records the working copy.
\<close>

record MemProject =
  workingCopy :: "(string \<times> string) list"
  committed :: "(string \<times> string) list"
  pushError :: "js_error option"

definition mem_ops :: "MemProject GitProject" where
  "mem_ops =
     \<lparr>specFiles = (\<lambda>p. map (\<lambda>(n, c). \<lparr>path = n, content = c\<rparr>)
                            (filter (\<lambda>(n, c). isSpecPath n) (workingCopy p))),
      getFile = (\<lambda>p n. map_of (workingCopy p) n \<noteq> None),
      addFile = (\<lambda>n c p. p\<lparr>workingCopy := workingCopy p @ [(n, c)]\<rparr>),
      deleteFile = (\<lambda>n p. p\<lparr>workingCopy := filter (\<lambda>(k, v). k \<noteq> n) (workingCopy p)\<rparr>),
      setContent = (\<lambda>n c p. p\<lparr>workingCopy := AList.update n c (workingCopy p)\<rparr>),
      isClean = (\<lambda>p. workingCopy p = committed p),
      commit = (\<lambda>m p. Inr (p\<lparr>committed := workingCopy p\<rparr>)),
      push = (\<lambda>p. case pushError p of Some e \<Rightarrow> Inl e | None \<Rightarrow> Inr p)\<rparr>"

text \<open>
  A printer that writes the kind, the name and the data entries of a resource, and a
  parser that knows the resources of a table by their printed text.
\<close>

definition print_toy :: "KubernetesObject \<Rightarrow> string" where
  "print_toy r =
     templateString (kind r) @ '' ''
     @ (case metadata r of None \<Rightarrow> ''undefined'' | Some m \<Rightarrow> templateString (name m))
     @ concat (map (\<lambda>(k, v). '' '' @ k @ ''='' @ v) (data r))"

definition parse_toy :: "KubernetesObject list \<Rightarrow> ProjectFile \<Rightarrow> js_error + KubernetesObject" where
  "parse_toy known f =
     (case List.find (\<lambda>r. print_toy r @ [CHR 0x0A] = content f) known of
        None \<Rightarrow> Inl (Error ''Unexpected token'')
      | Some r \<Rightarrow> Inr r)"

definition secret_db_password :: KubernetesObject where
  "secret_db_password =
     (resource ''v1'' ''Secret'' ''db'' (Some ''default''))\<lparr>data := [(''password'', ''aHVudGVyMg=='')]\<rparr>"

definition env_toy :: "MemProject SyncEnv" where
  "env_toy =
     \<lparr>gitProject = mem_ops,
      parseKubernetesSpecFile = parse_toy [secret_db_password, serviceAccount_web],
      stringify = print_toy,
      safeDump = print_toy,
      appName = (\<lambda>app. ns app @ ''/'' @ reqName app),
      commitTag = tag_test\<rparr>"

definition project_empty :: MemProject where
  "project_empty = \<lparr>workingCopy = [], committed = [], pushError = None\<rparr>"

text \<open>A project that holds the spec of \<open>secret_db_password\<close>, committed.\<close>

definition project_secret :: MemProject where
  "project_secret =
     \<lparr>workingCopy = [(''default-db-secret.json'', ''Secret db password=aHVudGVyMg=='' @ [CHR 0x0A])],
      committed = [(''default-db-secret.json'', ''Secret db password=aHVudGVyMg=='' @ [CHR 0x0A])],
      pushError = None\<rparr>"

definition run_of :: "MemProject \<Rightarrow> MemProject SyncRun" where
  "run_of p = \<lparr>project = p, calls = [], guids = [''0f1e2d3c-aaaa-bbbb-cccc-000000000000'']\<rparr>"

text \<open>A configuration with a resolved sync repo and a cipher key.\<close>

definition sdm_with_key :: SoftwareDeliveryMachine where
  "sdm_with_key = \<lparr>sync = Some \<lparr>syncRepo = Some (Resolved repo_specs), secretKey = Some ''passphrase''\<rparr>\<rparr>"

text \<open>The run after \<open>secret_db_password\<close> was added to the empty project.\<close>

definition run_secret_added :: "MemProject SyncRun" where
  "run_secret_added =
     \<lparr>project = \<lparr>workingCopy = [(''default-db-secret.json'', ''Secret db password=aHVudGVyMg=='' @ [CHR 0x0A])],
                  committed = [], pushError = None\<rparr>,
      calls = [AddFile ''default-db-secret.json'' (''Secret db password=aHVudGVyMg=='' @ [CHR 0x0A])],
      guids = [''0f1e2d3c-aaaa-bbbb-cccc-000000000000'']\<rparr>"

section \<open>Properties of \<^verbatim>\<open>specFileBasename\<close>\<close>

lemma upper_not_lower: "isUpperAZ c \<Longrightarrow> \<not> isLowerAZ c"
  by (simp add: isLowerAZ_def isUpperAZ_def)

lemma toLowerChar_hyphen: "toLowerChar (CHR ''-'') = CHR ''-''"
  by (simp add: toLowerChar_def)

lemma toLowerCase_append: "toLowerCase (xs @ ys) = toLowerCase xs @ toLowerCase ys"
  by (simp add: toLowerCase_def)

lemma lower_replace: "toLowerCase (replaceLowerUpper (a # cs)) = toLowerChar a # hyphenate a cs"
proof (induction "a # cs" arbitrary: a cs rule: replaceLowerUpper.induct)
  case (1 a b cs)
  show ?case
  proof (cases "isLowerAZ a \<and> isUpperAZ b")
    case True
    then have nb: "\<not> isLowerAZ b" by (simp add: upper_not_lower)
    show ?thesis
    proof (cases cs)
      case Nil
      with True show ?thesis by (simp add: toLowerCase_def toLowerChar_hyphen)
    next
      case (Cons c cs')
      with 1(1)[OF True Cons] True nb show ?thesis
        by (simp add: toLowerCase_def toLowerChar_hyphen)
    qed
  next
    case False
    with 1(2)[OF False] show ?thesis by (auto simp add: toLowerCase_def)
  qed
qed (simp add: toLowerCase_def)

lemma hyphenate_index:
  "concat (map (\<lambda>i. if isLowerAZ ((p # cs) ! i) \<and> isUpperAZ (cs ! i)
                       then [CHR ''-'', toLowerChar (cs ! i)]
                       else [toLowerChar (cs ! i)])
                 [0..<length cs]) = hyphenate p cs"
proof (induction cs arbitrary: p)
  case Nil
  then show ?case by simp
next
  case (Cons c cs)
  show ?case using Cons[of c]
    by (simp add: map_upt_Suc del: upt_Suc cong: if_cong)
qed

lemma kebabKind_spec_Cons: "kebabKind_spec (a # cs) = toLowerChar a # hyphenate a cs"
proof -
  have "kebabKind_spec (a # cs) = toLowerChar a #
     concat (map (\<lambda>i. if isLowerAZ ((a # cs) ! i) \<and> isUpperAZ (cs ! i)
                       then [CHR ''-'', toLowerChar (cs ! i)]
                       else [toLowerChar (cs ! i)])
                 [0..<length cs])"
    by (simp add: kebabKind_spec_def map_upt_Suc del: upt_Suc cong: if_cong)
  then show ?thesis by (simp add: hyphenate_index)
qed

text \<open>
  Lowercasing the result of the regular-expression replacement gives the kind
  lowercased with a hyphen at each lowercase-to-uppercase boundary.
\<close>

lemma replaceLowerUpper_kebab: "toLowerCase (replaceLowerUpper k) = kebabKind_spec k"
proof (cases k)
  case Nil
  then show ?thesis by (simp add: toLowerCase_def kebabKind_spec_def)
next
  case (Cons a cs)
  then show ?thesis by (simp add: lower_replace kebabKind_spec_Cons)
qed

text \<open>
  What \<open>specFileBasename\<close> returns.  For a resource with metadata, a kind and a name,
  the base file name is the lowercased namespace, a hyphen, the lowercased name, a
  hyphen and the kebab-case kind when the namespace is a non-empty string, and the
  lowercased name, a hyphen and the kebab-case kind when the namespace is absent or
  empty.  The separators are hyphens and there is no priority prefix.
\<close>

lemma specFileBasename_format:
  assumes "metadata r = Some m" and "kind r = Some k" and "name m = Some n"
  shows "(\<forall>nsp. namespace m = Some nsp \<and> nsp \<noteq> [] \<longrightarrow>
            specFileBasename r =
              Inr (toLowerCase nsp @ ''-'' @ toLowerCase n @ ''-'' @ kebabKind_spec k))
       \<and> (namespace m = None \<or> namespace m = Some [] \<longrightarrow>
            specFileBasename r = Inr (toLowerCase n @ ''-'' @ kebabKind_spec k))"
proof -
  have lc: "\<And>cs. toLowerCase (CHR ''-'' # cs) = CHR ''-'' # toLowerCase cs"
    and nil: "toLowerCase [] = []"
    by (simp_all add: toLowerCase_def toLowerChar_hyphen)
  show ?thesis using assms
    by (auto simp: specFileBasename_def truthy_def templateString_def toLowerCase_append
                   replaceLowerUpper_kebab lc nil)
qed

lemma specFileBasename_format_examples:
  "specFileBasename serviceAccount_web = Inr ''default-web-service-account''
   \<and> specFileBasename clusterRole_Admin = Inr ''admin-cluster-role''"
proof -
  have a: "metadata serviceAccount_web = Some (meta ''web'' (Some ''default''))"
    and b: "kind serviceAccount_web = Some ''ServiceAccount''"
    and c: "name (meta ''web'' (Some ''default'')) = Some ''web''"
    and d: "namespace (meta ''web'' (Some ''default'')) = Some ''default''"
    by (simp_all add: serviceAccount_web_def resource_def meta_def)
  have a': "metadata clusterRole_Admin = Some (meta ''Admin'' None)"
    and b': "kind clusterRole_Admin = Some ''ClusterRole''"
    and c': "name (meta ''Admin'' None) = Some ''Admin''"
    and d': "namespace (meta ''Admin'' None) = None"
    by (simp_all add: clusterRole_Admin_def resource_def meta_def)
  have k1: "kebabKind_spec ''ServiceAccount'' = ''service-account''"
    and k2: "kebabKind_spec ''ClusterRole'' = ''cluster-role''"
    and l1: "toLowerCase ''default'' = ''default''"
    and l2: "toLowerCase ''web'' = ''web''"
    and l3: "toLowerCase ''Admin'' = ''admin''"
    by code_simp+
  from specFileBasename_format [OF a b c] d
  have "specFileBasename serviceAccount_web =
          Inr (toLowerCase ''default'' @ ''-'' @ toLowerCase ''web'' @ ''-'' @ kebabKind_spec ''ServiceAccount'')"
    by blast
  moreover from specFileBasename_format [OF a' b' c'] d'
  have "specFileBasename clusterRole_Admin =
          Inr (toLowerCase ''Admin'' @ ''-'' @ kebabKind_spec ''ClusterRole'')"
    by blast
  ultimately show ?thesis by (simp add: k1 k2 l1 l2 l3)
qed

text \<open>
  C2 at the resources of the tests of \<open>specFileBasename\<close> in
  \<^verbatim>\<open>src/test/sync/diff.test.ts\<close>.  The tests expect a two-digit priority code and
  underscores between the parts (\<^verbatim>\<open>10_lyle_namespace\<close>, \<^verbatim>\<open>70_lovett_lyle_deployment\<close>,
  \<^verbatim>\<open>20_lovett_lyle_service-account\<close>, \<^verbatim>\<open>25_lyle_cluster-role\<close>); the function returns
  the parts joined by hyphens, without a code.
\<close>

theorem specFileBasename_test_names:
  "specFileBasename namespace_lyle = Inr ''lyle-namespace''
   \<and> specFileBasename namespace_lyle \<noteq> Inr ''10_lyle_namespace''
   \<and> specFileBasename deployment_lyle = Inr ''lovett-lyle-deployment''
   \<and> specFileBasename deployment_lyle \<noteq> Inr ''70_lovett_lyle_deployment''
   \<and> specFileBasename serviceAccount_lyle = Inr ''lovett-lyle-service-account''
   \<and> specFileBasename serviceAccount_lyle \<noteq> Inr ''20_lovett_lyle_service-account''
   \<and> specFileBasename clusterRole_lyle = Inr ''lyle-cluster-role''
   \<and> specFileBasename clusterRole_lyle \<noteq> Inr ''25_lyle_cluster-role''"
  by code_simp

section \<open>Properties of \<^verbatim>\<open>matchSpec\<close>\<close>





section \<open>Properties of the push test \<^verbatim>\<open>IsSyncRepoCommit\<close>\<close>

lemma isSyncRepoCommit_defined:
  "isSyncRepoCommit printRepo tagOf sdm =
     (if configuredRepo sdm = None then None else Some (IsSyncRepoCommit printRepo tagOf))"
  by (simp add: isSyncRepoCommit_def configuredRepo_def split: option.splits)

text \<open>
  C6.  When the configured sync repo is not a resolved remote reference the push test
  throws an \<^verbatim>\<open>Error\<close>.  When it is resolved to \<open>r\<close>, the test returns whether the
  provider type, owner, repo and branch of the push equal those of \<open>r\<close> and some commit
  of the push has a message that does not contain the commit tag.
\<close>

theorem IsSyncRepoCommit_result:
  "(\<not> isRemoteRepo (configuredRepo sdm) \<longrightarrow>
      (\<exists>msg. IsSyncRepoCommit printRepo tagOf sdm p = Inl (Error msg)))
   \<and> (\<forall>r. configuredRepo sdm = Some (Resolved r) \<longrightarrow>
        IsSyncRepoCommit printRepo tagOf sdm p =
          Inr (providerType (pushId p) = providerType r \<and> owner (pushId p) = owner r \<and>
               repo (pushId p) = repo r \<and> branch (pushId p) = branch r \<and>
               (\<exists>c\<in>set (commits p). \<not> sublist (tagOf sdm) (commitMessage c))))"
  by (auto simp: IsSyncRepoCommit_def isRemoteRepo_def list_ex_iff)

theorem IsSyncRepoCommit_result_witness:
  "(\<exists>msg. IsSyncRepoCommit (\<lambda>_. ''{}'') (\<lambda>_. tag_test) sdm_unresolved push_mixed = Inl (Error msg))
   \<and> IsSyncRepoCommit (\<lambda>_. ''{}'') (\<lambda>_. tag_test) sdm_resolved push_mixed = Inr True
   \<and> IsSyncRepoCommit (\<lambda>_. ''{}'') (\<lambda>_. tag_test) sdm_resolved push_generated = Inr False
   \<and> IsSyncRepoCommit (\<lambda>_. ''{}'') (\<lambda>_. tag_test) sdm_resolved push_other_branch = Inr False"
proof -
  have u: "\<not> isRemoteRepo (configuredRepo sdm_unresolved)"
    by (simp add: isRemoteRepo_def configuredRepo_def sdm_unresolved_def)
  have r: "configuredRepo sdm_resolved = Some (Resolved repo_specs)"
    by (simp add: configuredRepo_def sdm_resolved_def)
  have g: "sublist tag_test (commitMessage commit_generated)"
    by (simp add: tag_test_def commit_generated_def) code_simp
  have m: "\<not> sublist tag_test (commitMessage commit_manual)"
    by (simp add: tag_test_def commit_manual_def) code_simp
  note t = IsSyncRepoCommit_result [of _ "\<lambda>_. ''{}''" "\<lambda>_. tag_test"]
  from t [of sdm_unresolved push_mixed] u
  have "\<exists>msg. IsSyncRepoCommit (\<lambda>_. ''{}'') (\<lambda>_. tag_test) sdm_unresolved push_mixed = Inl (Error msg)"
    by blast
  moreover from t [of sdm_resolved push_mixed] r m
  have "IsSyncRepoCommit (\<lambda>_. ''{}'') (\<lambda>_. tag_test) sdm_resolved push_mixed = Inr True"
    by (simp add: push_mixed_def)
  moreover from t [of sdm_resolved push_generated] r g
  have "IsSyncRepoCommit (\<lambda>_. ''{}'') (\<lambda>_. tag_test) sdm_resolved push_generated = Inr False"
    by (simp add: push_generated_def)
  moreover from t [of sdm_resolved push_other_branch] r
  have "IsSyncRepoCommit (\<lambda>_. ''{}'') (\<lambda>_. tag_test) sdm_resolved push_other_branch = Inr False"
    by (simp add: push_other_branch_def repo_specs_def)
  ultimately show ?thesis by blast
qed

section \<open>Properties of \<^verbatim>\<open>patchWithHeaders\<close>\<close>

text \<open>When the patch operation returns, the client is as it was before the call.\<close>

lemma patchWithHeaders_returns:
  assumes "patcher (api\<lparr>defaultHeaders :=
             AList.update ''Content-Type'' ''application/strategic-merge-patch+json''
               (defaultHeaders api)\<rparr>) args = Inr v"
  shows "patchWithHeaders api patcher args = (Inr v, api)"
  using assms by (simp add: patchWithHeaders_def Let_def)

text \<open>When it throws, the client keeps the patch content type among its default headers.\<close>

lemma patchWithHeaders_throws:
  assumes "patcher (api\<lparr>defaultHeaders :=
             AList.update ''Content-Type'' ''application/strategic-merge-patch+json''
               (defaultHeaders api)\<rparr>) args = Inl e"
  shows "patchWithHeaders api patcher args =
           (Inl e, api\<lparr>defaultHeaders :=
              AList.update ''Content-Type'' ''application/strategic-merge-patch+json''
                (defaultHeaders api)\<rparr>)"
  using assms by (simp add: patchWithHeaders_def Let_def)

text \<open>
  C4 at a patch operation that throws, called through a patched client class on a
  client with no default headers: the call throws the operation's error and leaves the
  client with the patch content type as a default header, which it did not have before
  the call.
\<close>

theorem patchWithHeaders_throw_keeps_header:
  "patchMethod patch_rejected client_plain [''web'', ''default''] =
     (Inl (Error ''Unprocessable Entity''),
      \<lparr>defaultHeaders = [(''Content-Type'', ''application/strategic-merge-patch+json'')]\<rparr>)
   \<and> defaultHeaders (snd (patchMethod patch_rejected client_plain [''web'', ''default'']))
       \<noteq> defaultHeaders client_plain"
  by (simp add: patchMethod_def patchWithHeaders_def client_plain_def patch_rejected_def)

section \<open>Properties of \<^verbatim>\<open>deleteApplication\<close>\<close>

lemma tryDelete_fields:
  "cluster (tryDelete k pfx deleteX pushed run) = snd (deleteX (cluster run))"
  "errs (tryDelete k pfx deleteX pushed run) = errs run @ failureOf pfx (fst (deleteX (cluster run)))"
  "attempted (tryDelete k pfx deleteX pushed run) = attempted run @ [k]"
  "deleted (tryDelete k pfx deleteX pushed run) = deleted run @ pushedOf pushed (fst (deleteX (cluster run)))"
  by (simp_all add: tryDelete_def failureOf_def pushedOf_def split: prod.splits sum.splits)

lemma failureOf_Nil: "(failureOf pfx r = []) = (\<not> isl r)"
  by (cases r) (simp_all add: failureOf_def)

text \<open>
  C8, for a request whose Kubernetes configuration loads.  The five delete functions
  are called once each in the order ingress, deployment, secrets, service, RBAC, each
  on the cluster the previous one left, whether or not an earlier one threw.  The call
  throws exactly when one of them threw, and then it throws an \<^verbatim>\<open>Error\<close> whose message
  joins the prefixed messages of the failures, in call order, with \<^verbatim>\<open>"; "\<close>.
\<close>

theorem deleteApplication_attempts_every_kind:
  assumes "loadKubeConfig = Inr clients"
  shows "let slug = ns del @ ''/'' @ reqName del;
             r1 = deleteIngress ops clients del c;
             r2 = deleteDeployment ops clients del (snd r1);
             r3 = deleteSecrets ops clients del (snd r2);
             r4 = deleteService ops clients del (snd r3);
             r5 = deleteRbac ops clients del (snd r4);
             failures =
               failureOf (''Failed to delete ingress '' @ slug @ '': '') (fst r1)
               @ failureOf (''Failed to delete deployment '' @ slug @ '': '') (fst r2)
               @ failureOf (''Failed to delete secrets of '' @ slug @ '': '') (fst r3)
               @ failureOf (''Failed to delete service '' @ slug @ '': '') (fst r4)
               @ failureOf (''Failed to delete RBAC resources for '' @ slug @ '': '') (fst r5);
             out = deleteApplication loadKubeConfig reqString ops del c
         in attempted (snd out) = [Ingress, Deployment, Secrets, Service, Rbac]
            \<and> cluster (snd out) = snd r5
            \<and> errs (snd out) = failures
            \<and> ((\<exists>e. fst out = Inl e) \<longleftrightarrow>
                 isl (fst r1) \<or> isl (fst r2) \<or> isl (fst r3) \<or> isl (fst r4) \<or> isl (fst r5))
            \<and> (failures \<noteq> [] \<longrightarrow>
                 fst out = Inl (Error (''Failed to delete application '' @ [CHR 0x27] @ reqString del
                                       @ [CHR 0x27] @ '': '' @ join ''; '' (map message failures))))"
proof -
  define slug where "slug = ns del @ ''/'' @ reqName del"
  define r1 where "r1 = deleteIngress ops clients del c"
  define r2 where "r2 = deleteDeployment ops clients del (snd r1)"
  define r3 where "r3 = deleteSecrets ops clients del (snd r2)"
  define r4 where "r4 = deleteService ops clients del (snd r3)"
  define r5 where "r5 = deleteRbac ops clients del (snd r4)"
  define failures where "failures =
               failureOf (''Failed to delete ingress '' @ slug @ '': '') (fst r1)
               @ failureOf (''Failed to delete deployment '' @ slug @ '': '') (fst r2)
               @ failureOf (''Failed to delete secrets of '' @ slug @ '': '') (fst r3)
               @ failureOf (''Failed to delete service '' @ slug @ '': '') (fst r4)
               @ failureOf (''Failed to delete RBAC resources for '' @ slug @ '': '') (fst r5)"
  define run0 :: "'b DeleteRun" where "run0 = \<lparr>deleted = [], errs = [], cluster = c, attempted = []\<rparr>"
  define run1 where "run1 = tryDelete Ingress (''Failed to delete ingress '' @ slug @ '': '')
                           (deleteIngress ops clients del) (\<lambda>d. [d]) run0"
  define run2 where "run2 = tryDelete Deployment (''Failed to delete deployment '' @ slug @ '': '')
                           (deleteDeployment ops clients del) (\<lambda>d. [d]) run1"
  define run3 where "run3 = tryDelete Secrets (''Failed to delete secrets of '' @ slug @ '': '')
                           (deleteSecrets ops clients del) (map Some) run2"
  define run4 where "run4 = tryDelete Service (''Failed to delete service '' @ slug @ '': '')
                           (deleteService ops clients del) (\<lambda>d. [d]) run3"
  define run5 where "run5 = tryDelete Rbac (''Failed to delete RBAC resources for '' @ slug @ '': '')
                           (deleteRbac ops clients del) (map Some) run4"
  define out where "out = deleteApplication loadKubeConfig reqString ops del c"
  have c1: "cluster run1 = snd r1" by (simp add: run1_def run0_def r1_def tryDelete_fields)
  have c2: "cluster run2 = snd r2" by (simp add: run2_def r2_def c1 tryDelete_fields)
  have c3: "cluster run3 = snd r3" by (simp add: run3_def r3_def c2 tryDelete_fields)
  have c4: "cluster run4 = snd r4" by (simp add: run4_def r4_def c3 tryDelete_fields)
  have c5: "cluster run5 = snd r5" by (simp add: run5_def r5_def c4 tryDelete_fields)
  have e1: "errs run1 = failureOf (''Failed to delete ingress '' @ slug @ '': '') (fst r1)"
    by (simp add: run1_def run0_def r1_def tryDelete_fields)
  have e2: "errs run2 = errs run1 @ failureOf (''Failed to delete deployment '' @ slug @ '': '') (fst r2)"
    by (simp add: run2_def r2_def c1 tryDelete_fields)
  have e3: "errs run3 = errs run2 @ failureOf (''Failed to delete secrets of '' @ slug @ '': '') (fst r3)"
    by (simp add: run3_def r3_def c2 tryDelete_fields)
  have e4: "errs run4 = errs run3 @ failureOf (''Failed to delete service '' @ slug @ '': '') (fst r4)"
    by (simp add: run4_def r4_def c3 tryDelete_fields)
  have e5: "errs run5 = errs run4 @ failureOf (''Failed to delete RBAC resources for '' @ slug @ '': '') (fst r5)"
    by (simp add: run5_def r5_def c4 tryDelete_fields)
  have e: "errs run5 = failures"
    by (simp add: e1 e2 e3 e4 e5 failures_def)
  have a: "attempted run5 = [Ingress, Deployment, Secrets, Service, Rbac]"
    by (simp add: run5_def run4_def run3_def run2_def run1_def run0_def tryDelete_fields)
  have o: "out = (if length (errs run5) > 0 then
                   (Inl (Error (''Failed to delete application '' @ [CHR 0x27] @ reqString del
                                @ [CHR 0x27] @ '': '' @ join ''; '' (map message (errs run5)))),
                    run5)
                 else (Inr (truthyObjects (deleted run5)), run5))"
    unfolding out_def deleteApplication_def Let_def run5_def run4_def run3_def run2_def run1_def
      run0_def slug_def
    by (simp only: assms sum.case)
  have s: "snd out = run5" by (simp add: o)
  have f: "(\<exists>e. fst out = Inl e) \<longleftrightarrow> failures \<noteq> []"
    by (auto simp: o e)
  have n: "failures \<noteq> [] \<longleftrightarrow>
             isl (fst r1) \<or> isl (fst r2) \<or> isl (fst r3) \<or> isl (fst r4) \<or> isl (fst r5)"
    by (simp add: failures_def failureOf_Nil)
  have m: "failures \<noteq> [] \<longrightarrow>
             fst out = Inl (Error (''Failed to delete application '' @ [CHR 0x27] @ reqString del
                                   @ [CHR 0x27] @ '': '' @ join ''; '' (map message failures)))"
    by (simp add: o e)
  have "attempted (snd out) = [Ingress, Deployment, Secrets, Service, Rbac]
            \<and> cluster (snd out) = snd r5
            \<and> errs (snd out) = failures
            \<and> ((\<exists>e. fst out = Inl e) \<longleftrightarrow>
                 isl (fst r1) \<or> isl (fst r2) \<or> isl (fst r3) \<or> isl (fst r4) \<or> isl (fst r5))
            \<and> (failures \<noteq> [] \<longrightarrow>
                 fst out = Inl (Error (''Failed to delete application '' @ [CHR 0x27] @ reqString del
                                       @ [CHR 0x27] @ '': '' @ join ''; '' (map message failures))))"
    using a c5 e f n m by (simp only: s)
  then show ?thesis
    unfolding Let_def out_def failures_def r5_def r4_def r3_def r2_def r1_def slug_def .
qed

theorem deleteApplication_attempts_every_kind_witness:
  "attempted (snd (deleteApplication (Inr ()) (\<lambda>d. ''{}'') (ops_failing [Deployment, Service]) del_web []))
     = [Ingress, Deployment, Secrets, Service, Rbac]
   \<and> cluster (snd (deleteApplication (Inr ()) (\<lambda>d. ''{}'') (ops_failing [Deployment, Service]) del_web []))
     = [Ingress, Secrets, Rbac]
   \<and> fst (deleteApplication (Inr ()) (\<lambda>d. ''{}'') (ops_failing [Deployment, Service]) del_web [])
     = Inl (Error (''Failed to delete application '' @ [CHR 0x27] @ ''{}'' @ [CHR 0x27] @ '': ''
                   @ ''Failed to delete deployment default/web: timeout Deployment; ''
                   @ ''Failed to delete service default/web: timeout Service''))"
proof -
  have h: "(Inr () :: js_error + unit) = Inr ()" by simp
  show ?thesis
    using deleteApplication_attempts_every_kind
            [OF h, of del_web "ops_failing [Deployment, Service]" "[]" "\<lambda>d. ''{}''"]
    by (simp add: Let_def ops_failing_def failing1_def failingN_def failureOf_def del_web_def
                  kindName_def)
qed

text \<open>
  C10.  When loading the Kubernetes configuration throws \<open>e\<close>, \<open>deleteApplication\<close>
  throws a TypeError and calls no delete function, where \<open>upsertApplication\<close> on the
  same failure rethrows \<open>e\<close> with its message prefixed.
\<close>

theorem deleteApplication_config_failure:
  assumes "loadKubeConfig = Inl e"
  shows "(\<exists>msg. fst (deleteApplication loadKubeConfig reqString ops del c) = Inl (TypeError msg))
       \<and> attempted (snd (deleteApplication loadKubeConfig reqString ops del c)) = []
       \<and> fst (upsertApplication loadKubeConfig reqStringU upserts del sdmFulfiller c) =
           Inl (prefixMessage (''Failed to load Kubernetes config to deploy '' @ ns del @ ''/''
                               @ reqName del @ '': '') e)"
  using assms by (simp add: deleteApplication_def upsertApplication_def Let_def)


theorem deleteApplication_config_failure_witness:
  "fst (deleteApplication (Inl (Error ''ENOENT'') :: js_error + unit) (\<lambda>d. ''{}'') (ops_failing []) del_web [])
     = Inl (TypeError ''e.message is not a function'')
   \<and> fst (upsertApplication (Inl (Error ''ENOENT'') :: js_error + unit) (\<lambda>d f. ''{}'') [] del_web ''sdm''
            ([] :: ResourceKind list))
     = Inl (Error ''Failed to load Kubernetes config to deploy default/web: ENOENT'')"
proof -
  have h: "(Inl (Error ''ENOENT'') :: js_error + unit) = Inl (Error ''ENOENT'')" by simp
  show ?thesis
    using deleteApplication_config_failure
            [OF h, of "\<lambda>d. ''{}''" "ops_failing []" del_web "[]" "\<lambda>d f. ''{}''" "[]" "''sdm''"]
    by (simp add: deleteApplication_def del_web_def)
qed

section \<open>Properties of the secret cipher\<close>

lemma hexString_length: "length (hexString bs) = 2 * length bs"
  by (induction bs) (simp_all add: hexString_def)

lemma deriveKey_nonempty:
  assumes "key \<noteq> []"
  shows "deriveKey cr key len = Inr (scrypt cr key (saltOf key) len)"
  using assms by (simp add: deriveKey_def)

text \<open>
  With a non-empty key, \<open>encrypt\<close> returns the base64 text of the ciphertext of the
  UTF-8 bytes of the text, and \<open>decrypt\<close> on it returns those bytes decoded.
\<close>

lemma encrypt_then_decrypt:
  assumes "cryptoLaws cr" and "key \<noteq> []"
  shows "\<exists>ct. cipher cr (scrypt cr key (saltOf key) 32)
                 (scrypt cr (hexString (scrypt cr key (saltOf key) 32))
                    (saltOf (hexString (scrypt cr key (saltOf key) 32))) 16)
                 (utf8Encode plain) = Inr ct
              \<and> encrypt cr plain key = Inr (base64 cr ct)
              \<and> decrypt cr (base64 cr ct) key = Inr (utf8String cr (utf8Encode plain))"
proof -
  define k where "k = scrypt cr key (saltOf key) 32"
  define iv where "iv = scrypt cr (hexString k) (saltOf (hexString k)) 16"
  from assms(1) have lk: "length k = 32" and liv: "length iv = 16"
    by (simp_all add: cryptoLaws_def k_def iv_def)
  from lk have hk: "hexString k \<noteq> []"
    using hexString_length [of k] by auto
  have dk: "deriveKey cr key 32 = Inr k"
    using assms(2) by (simp add: deriveKey_nonempty k_def)
  have div: "deriveKey cr (hexString k) 16 = Inr iv"
    using hk by (simp add: deriveKey_nonempty iv_def)
  from assms(1) lk liv obtain ct where
    c: "cipher cr k iv (utf8Encode plain) = Inr ct"
    and d: "decipher cr k iv ct = Inr (utf8Encode plain)"
    unfolding cryptoLaws_def by blast
  from assms(1) have b: "fromBase64 cr (base64 cr ct) = ct"
    by (simp add: cryptoLaws_def)
  have "encrypt cr plain key = Inr (base64 cr ct)"
    by (simp add: encrypt_def dk div c)
  moreover have "decrypt cr (base64 cr ct) key = Inr (utf8String cr (utf8Encode plain))"
    by (simp add: decrypt_def dk div b d)
  ultimately show ?thesis using c unfolding k_def iv_def by blast
qed

lemma roundTrip_decodes:
  assumes "cryptoLaws cr" and "key \<noteq> []"
  shows "roundTrip cr plain key = Inr (utf8String cr (utf8Encode plain))"
  using encrypt_then_decrypt [OF assms, of plain] by (auto simp: roundTrip_def)

text \<open>
  C5, for well-formed text.  With library primitives that satisfy \<open>cryptoLaws\<close>, a
  non-empty key and a text that has no surrogate outside a pair, \<open>encrypt\<close> returns the
  base64 text of the ciphertext computed under the key \<^verbatim>\<open>scrypt(key, salt, 32)\<close> and the
  IV \<^verbatim>\<open>scrypt(hex, salt', 16)\<close>, where \<^verbatim>\<open>hex\<close> is the derived key in hexadecimal and both
  salts are built from the passphrase they go with: the result is a function of the
  text and the key, so a second call returns the same ciphertext.  \<open>decrypt\<close> on that
  ciphertext with the same key returns the text.  The text itself may be empty.
\<close>

theorem encrypt_decrypt_roundtrip:
  assumes "cryptoLaws cr" and "key \<noteq> []" and "wellFormed plain"
  shows "(\<exists>ct. cipher cr (scrypt cr key (saltOf key) 32)
                  (scrypt cr (hexString (scrypt cr key (saltOf key) 32))
                     (saltOf (hexString (scrypt cr key (saltOf key) 32))) 16)
                  (utf8Encode plain) = Inr ct
               \<and> encrypt cr plain key = Inr (base64 cr ct)
               \<and> decrypt cr (base64 cr ct) key = Inr plain)
         \<and> roundTrip cr plain key = Inr plain"
proof -
  from assms(1,3) have u: "utf8String cr (utf8Encode plain) = plain"
    by (simp add: cryptoLaws_def)
  from encrypt_then_decrypt [OF assms(1,2), of plain] roundTrip_decodes [OF assms(1,2), of plain]
  show ?thesis unfolding u by blast
qed

text \<open>The UTF-8 encoding of the well-formed strings is read back by the stand-in decoder.\<close>

lemma recompose3: "(c::nat) div 4096 * 4096 + c div 64 mod 64 * 64 + c mod 64 = c"
proof -
  have "c mod (64 * 64) = 64 * (c div 64 mod 64) + c mod 64"
    by (rule mod_mult2_eq)
  then have "c div 64 mod 64 * 64 + c mod 64 = c mod 4096" by simp
  moreover have "c div 4096 * 4096 + c mod 4096 = c" by simp
  ultimately show ?thesis by linarith
qed

lemma recompose4:
  "(c::nat) div 262144 * 262144 + c div 4096 mod 64 * 4096 + c div 64 mod 64 * 64 + c mod 64 = c"
proof -
  have "c mod (4096 * 64) = 4096 * (c div 4096 mod 64) + c mod 4096"
    by (rule mod_mult2_eq)
  then have "c div 4096 mod 64 * 4096 + c mod 4096 = c mod 262144" by simp
  moreover have "c mod (64 * 64) = 64 * (c div 64 mod 64) + c mod 64"
    by (rule mod_mult2_eq)
  then have "c div 64 mod 64 * 64 + c mod 64 = c mod 4096" by simp
  moreover have "c div 262144 * 262144 + c mod 262144 = c" by simp
  ultimately show ?thesis by linarith
qed

lemma div_bounds:
  "(c::nat) < 0x800 \<Longrightarrow> c div 64 < 32"
  "(c::nat) < 0x10000 \<Longrightarrow> c div 4096 < 16"
  "(c::nat) < 0x110000 \<Longrightarrow> c div 262144 < 5"
  by (rule less_mult_imp_div_less, simp)+

lemma decode_bmp:
  assumes "c < 0x10000"
  shows "unitsOfUtf8 (utf8OfCodePoint c @ bs) = c # unitsOfUtf8 bs"
proof -
  note div_bounds(1,2) [of c]
  with assms show ?thesis
    by (auto simp: utf8OfCodePoint_def recompose3)
qed

lemma decode_pair:
  assumes "isHighSurrogate u" "isLowSurrogate v"
  shows "unitsOfUtf8 (utf8OfCodePoint (0x10000 + (u - 0xD800) * 0x400 + (v - 0xDC00)) @ bs)
           = u # v # unitsOfUtf8 bs"
proof -
  define c where "c = 0x10000 + (u - 0xD800) * 0x400 + (v - 0xDC00)"
  from assms have b: "0x10000 \<le> c" "c < 0x110000"
    unfolding c_def isHighSurrogate_def isLowSurrogate_def by arith+
  then have f: "c div 262144 < 5" by (simp add: div_bounds)
  from assms have lo: "v - 0xDC00 < 0x400"
    unfolding isLowSurrogate_def by arith
  have e: "c - 0x10000 = (u - 0xD800) * 0x400 + (v - 0xDC00)"
    by (simp add: c_def)
  have d: "(c - 0x10000) div 0x400 = u - 0xD800" and m: "(c - 0x10000) mod 0x400 = v - 0xDC00"
    unfolding e using lo by simp_all
  from assms have u: "0xD800 + (u - 0xD800) = u" and v: "0xDC00 + (v - 0xDC00) = v"
    by (simp_all add: isHighSurrogate_def isLowSurrogate_def)
  have "unitsOfUtf8 (utf8OfCodePoint c @ bs) =
          (0xD800 + (c - 0x10000) div 0x400) # (0xDC00 + (c - 0x10000) mod 0x400) # unitsOfUtf8 bs"
    using b f by (simp add: utf8OfCodePoint_def Let_def recompose4)
  then have "unitsOfUtf8 (utf8OfCodePoint c @ bs) = u # v # unitsOfUtf8 bs"
    by (simp only: d m u v)
  then show ?thesis by (simp only: c_def)
qed

lemma utf8OfCodePoint_bytes:
  assumes "c < 0x110000"
  shows "\<forall>b\<in>set (utf8OfCodePoint c). b < 256"
proof -
  have a: "c < 0x800 \<Longrightarrow> c div 64 < 32" by (rule div_bounds)
  have b: "c < 0x10000 \<Longrightarrow> c div 4096 < 16" by (rule div_bounds)
  have d: "c div 262144 < 5" using assms by (rule div_bounds)
  have m0: "x mod 64 < 128" for x :: nat
  proof -
    have "x mod 64 < 64" by simp
    then show ?thesis by linarith
  qed
  note m = m0 [of c] m0 [of "c div 64"] m0 [of "c div 4096"]
  show ?thesis
  proof (cases "c < 0x80")
    case True
    then show ?thesis by (simp add: utf8OfCodePoint_def)
  next
    case n1: False
    show ?thesis
    proof (cases "c < 0x800")
      case True
      with n1 a m show ?thesis by (simp add: utf8OfCodePoint_def)
    next
      case n2: False
      show ?thesis
      proof (cases "c < 0x10000")
        case True
        with n1 n2 b m show ?thesis by (simp add: utf8OfCodePoint_def)
      next
        case False
        with n1 n2 d m show ?thesis by (simp add: utf8OfCodePoint_def)
      qed
    qed
  qed
qed

lemma pair_bound:
  assumes "isHighSurrogate u" "isLowSurrogate v"
  shows "0x10000 + (u - 0xD800) * 0x400 + (v - 0xDC00) < (0x110000::nat)"
  using assms unfolding isHighSurrogate_def isLowSurrogate_def by arith

lemma utf8Units_bytes:
  assumes "\<forall>u\<in>set us. u < 0x10000"
  shows "\<forall>b\<in>set (utf8Units us). b < 256"
  using assms
proof (induction us rule: utf8Units.induct)
  case 1
  then show ?case by simp
next
  case (2 u)
  then have "u < 0x110000" by simp
  from utf8OfCodePoint_bytes [OF this] show ?case by (simp add: replacementBytes_def)
next
  case (3 u v us)
  from 3(5) have "u < 0x110000" by simp
  note p = utf8OfCodePoint_bytes [OF this]
  have r: "\<forall>b\<in>set replacementBytes. b < 256" by (simp add: replacementBytes_def)
  show ?case
  proof (cases "isHighSurrogate u")
    case h: True
    show ?thesis
    proof (cases "isLowSurrogate v")
      case True
      from utf8OfCodePoint_bytes [OF pair_bound [OF h True]] 3(1) [OF h True] 3(5) h True
      show ?thesis by auto
    next
      case False
      with 3(2) [OF h False] 3(5) h r show ?thesis by auto
    qed
  next
    case nh: False
    show ?thesis
    proof (cases "isLowSurrogate u")
      case True
      with 3(3) [OF nh True] 3(5) nh r show ?thesis by auto
    next
      case False
      with 3(4) [OF nh False] 3(5) nh p show ?thesis by auto
    qed
  qed
qed

lemma roundtrip_units:
  assumes "wellFormedUnits us" and "\<forall>u\<in>set us. u < 0x10000"
  shows "unitsOfUtf8 (utf8Units us) = us"
  using assms
proof (induction us rule: utf8Units.induct)
  case 1
  then show ?case by simp
next
  case (2 u)
  then show ?case using decode_bmp [of u "[]"] by simp
next
  case (3 u v us)
  show ?case
  proof (cases "isHighSurrogate u")
    case True
    with 3 show ?thesis by (simp add: decode_pair)
  next
    case False
    with 3 show ?thesis by (simp add: decode_bmp)
  qed
qed

lemma unat_byte: "b < 256 \<Longrightarrow> unat (of_nat b :: 8 word) = b"
  by (simp add: unat_of_nat)

lemma unat_unit: "unat (u :: 16 word) < 0x10000"
  using unsigned_less [of u, where ?'a = nat] by simp

lemma decode_toy_encode:
  assumes "wellFormed t"
  shows "map of_nat (unitsOfUtf8 (map unat (utf8Encode t))) = t"
proof -
  have bound: "\<forall>u\<in>set (map unat t). u < 0x10000"
    by (simp add: unat_unit)
  from utf8Units_bytes [OF bound]
  have "map unat (map of_nat (utf8Units (map unat t)) :: bytes) = utf8Units (map unat t)"
    by (simp add: map_idI unat_byte)
  then have "unitsOfUtf8 (map unat (utf8Encode t)) = map unat t"
    using roundtrip_units [OF assms [unfolded wellFormed_def] bound]
    by (simp add: utf8Encode_def)
  then show ?thesis by (simp add: map_idI)
qed

lemma byteOf_unitOf: "byteOf (unitOf b) = b"
proof -
  have "is_up (ucast :: 8 word \<Rightarrow> 16 word)" by (simp add: is_up)
  then show ?thesis by (simp add: byteOf_def unitOf_def ucast_up_ucast_id)
qed

lemma crypto_toy_laws: "cryptoLaws crypto_toy"
  by (simp add: cryptoLaws_def crypto_toy_def byteOf_unitOf decode_toy_encode comp_def)

lemma wellFormed_ustr_hunter2: "wellFormed (ustr ''hunter2'')"
  by (simp add: wellFormed_def ustr_def isHighSurrogate_def isLowSurrogate_def)

theorem encrypt_decrypt_roundtrip_witness:
  "roundTrip crypto_toy (ustr ''hunter2'') (ustr ''key'') = Inr (ustr ''hunter2'')"
proof -
  have k: "ustr ''key'' \<noteq> []" by (simp add: ustr_def)
  from encrypt_decrypt_roundtrip [OF crypto_toy_laws k wellFormed_ustr_hunter2]
  show ?thesis by blast
qed

text \<open>
  A string that is one high surrogate has the UTF-8 bytes of U+FFFD, so with any
  primitives that satisfy \<open>cryptoLaws\<close> it comes back as U+FFFD.
\<close>

lemma lone_surrogate_encoding: "utf8Encode text_lone_surrogate = utf8Encode text_replacement"
  by (simp add: utf8Encode_def text_lone_surrogate_def text_replacement_def isHighSurrogate_def
                isLowSurrogate_def replacementBytes_def utf8OfCodePoint_def)

lemma wellFormed_replacement: "wellFormed text_replacement"
  by (simp add: wellFormed_def text_replacement_def isHighSurrogate_def isLowSurrogate_def)

lemma lone_surrogate_roundTrip:
  assumes "cryptoLaws cr" and "key \<noteq> []"
  shows "roundTrip cr text_lone_surrogate key = Inr text_replacement"
proof -
  from assms(1) wellFormed_replacement
  have "utf8String cr (utf8Encode text_replacement) = text_replacement"
    by (simp add: cryptoLaws_def)
  then show ?thesis
    by (simp add: roundTrip_decodes [OF assms] lone_surrogate_encoding)
qed

text \<open>
  C5 as stated fails at the non-empty text that is the high surrogate U+D800: the
  round trip returns U+FFFD.
\<close>

theorem encrypt_decrypt_counterexample:
  "roundTrip crypto_toy text_lone_surrogate (ustr ''key'') = Inr text_replacement
   \<and> text_replacement \<noteq> text_lone_surrogate"
proof -
  have k: "ustr ''key'' \<noteq> []" by (simp add: ustr_def)
  from lone_surrogate_roundTrip [OF crypto_toy_laws k]
  show ?thesis by (simp add: text_replacement_def text_lone_surrogate_def)
qed

section \<open>Properties of \<^verbatim>\<open>parseNameStatusDiff\<close>\<close>

text \<open>
  The model returns what the three tests of \<^verbatim>\<open>src/test/sync/diff.test.ts\<close> assert.
\<close>

lemma parseNameStatusDiff_tests:
  "map (parseNameStatusDiff test_sha) test_nothing = [[], [], [], []]"
  "parseNameStatusDiff test_sha test_valid_input = test_expected"
  "parseNameStatusDiff test_sha (test_valid_input @ [CHR 0x0A]) = test_expected"
  "parseNameStatusDiff test_sha test_sort_input = test_expected"
  by code_simp+

lemma changeType_cases: "change c \<noteq> ChangeDelete \<longleftrightarrow> change c = ChangeApply"
  by (cases "change c") simp_all

lemma filter_sort_key: "filter P (sort_key f xs) = sort_key f (filter P xs)"
  by (induction xs) (simp_all add: filter_insort_triv filter_insort sorted_sort_key)

lemma parse_deletes:
  "filter (\<lambda>c. change c = ChangeDelete) (parseNameStatusDiff s diff) =
     sort_key diffPath (filter (\<lambda>c. change c = ChangeDelete)
       (changesOf s (nameStatusRecords (splitOn (CHR 0x00) diff))))"
  by (simp add: parseNameStatusDiff_def Let_def filter_sort_key)

lemma parse_applies:
  "filter (\<lambda>c. change c = ChangeApply) (parseNameStatusDiff s diff) =
     sort_key diffPath (filter (\<lambda>c. change c = ChangeApply)
       (changesOf s (nameStatusRecords (splitOn (CHR 0x00) diff))))"
  by (simp add: parseNameStatusDiff_def Let_def filter_sort_key)

lemma set_parse:
  "set (parseNameStatusDiff s diff) = set (changesOf s (nameStatusRecords (splitOn (CHR 0x00) diff)))"
  by (auto simp: parseNameStatusDiff_def Let_def changeType_cases [symmetric])

lemma pushDiff_eq:
  "(c = \<lparr>diffSha = s, change = ch, diffPath = p\<rparr>) \<longleftrightarrow>
     diffSha c = s \<and> change c = ch \<and> diffPath c = p"
  by (cases c) auto

lemma set_changesOf:
  "c \<in> set (changesOf s recs) \<longleftrightarrow>
     (\<exists>status. (status, diffPath c) \<in> set recs \<and> changeOfStatus status = Some (change c)
        \<and> isSpecPath (diffPath c) \<and> diffSha c = s)"
proof (induction recs)
  case Nil
  then show ?case by (simp add: changesOf_def)
next
  case (Cons r recs)
  obtain status p where r: "r = (status, p)" by (cases r)
  have step: "changesOf s (r # recs) =
      (case changeOfStatus status of
         None \<Rightarrow> changesOf s recs
       | Some ch \<Rightarrow> if isSpecPath p
                   then \<lparr>diffSha = s, change = ch, diffPath = p\<rparr> # changesOf s recs
                   else changesOf s recs)"
    by (simp add: changesOf_def r split: option.splits)
  have "c \<in> set (changesOf s (r # recs)) \<longleftrightarrow>
          (changeOfStatus status = Some (change c) \<and> isSpecPath p \<and> diffPath c = p \<and> diffSha c = s)
          \<or> c \<in> set (changesOf s recs)"
    by (cases "changeOfStatus status"; cases "isSpecPath p") (auto simp: step pushDiff_eq)
  then show ?case unfolding Cons.IH r by auto
qed

text \<open>
  With the result sorted by path whatever the kind, the test "should sort the paths"
  fails: \<^verbatim>\<open>aa.json\<close> comes before \<^verbatim>\<open>b.yml\<close>.
\<close>

lemma parseNameStatusDiff_spec_fails_test:
  "parseNameStatusDiff_spec test_sha test_sort_input \<noteq> test_expected"
  by code_simp

text \<open>
  C3, as the tests have it.  The change records of one commit are the deletes followed
  by the applies, each of the two groups sorted by path in ascending order.  Every
  record carries the commit's sha and the path of a spec file, and comes from an input
  record whose status gives its change; every input record of a spec file with status
  \<^verbatim>\<open>D\<close> gives a delete and every one with status \<^verbatim>\<open>A\<close> or \<^verbatim>\<open>M\<close> an apply.
\<close>

theorem parseNameStatusDiff_deletes_first:
  "let records = nameStatusRecords (splitOn (CHR 0x00) diff);
       cs = parseNameStatusDiff s diff;
       deletes = filter (\<lambda>c. change c = ChangeDelete) cs;
       applies = filter (\<lambda>c. change c = ChangeApply) cs
   in cs = deletes @ applies
      \<and> sorted (map diffPath deletes)
      \<and> sorted (map diffPath applies)
      \<and> (\<forall>c\<in>set cs. diffSha c = s \<and> isSpecPath (diffPath c) \<and>
            (\<exists>status. (status, diffPath c) \<in> set records \<and> changeOfStatus status = Some (change c)))
      \<and> (\<forall>p. isSpecPath p \<and> (''D'', p) \<in> set records \<longrightarrow>
            \<lparr>diffSha = s, change = ChangeDelete, diffPath = p\<rparr> \<in> set cs)
      \<and> (\<forall>p. isSpecPath p \<and> ((''A'', p) \<in> set records \<or> (''M'', p) \<in> set records) \<longrightarrow>
            \<lparr>diffSha = s, change = ChangeApply, diffPath = p\<rparr> \<in> set cs)"
proof -
  define records where "records = nameStatusRecords (splitOn (CHR 0x00) diff)"
  define cs where "cs = parseNameStatusDiff s diff"
  have a: "cs = filter (\<lambda>c. change c = ChangeDelete) cs @ filter (\<lambda>c. change c = ChangeApply) cs"
    unfolding cs_def parse_deletes parse_applies
    by (simp add: parseNameStatusDiff_def Let_def)
  have b: "sorted (map diffPath (filter (\<lambda>c. change c = ChangeDelete) cs))"
    unfolding cs_def parse_deletes by (rule sorted_sort_key)
  have c: "sorted (map diffPath (filter (\<lambda>c. change c = ChangeApply) cs))"
    unfolding cs_def parse_applies by (rule sorted_sort_key)
  have d: "\<forall>c\<in>set cs. diffSha c = s \<and> isSpecPath (diffPath c) \<and>
            (\<exists>status. (status, diffPath c) \<in> set records \<and> changeOfStatus status = Some (change c))"
    unfolding cs_def records_def set_parse by (auto simp: set_changesOf)
  have e: "\<forall>p. isSpecPath p \<and> (''D'', p) \<in> set records \<longrightarrow>
            \<lparr>diffSha = s, change = ChangeDelete, diffPath = p\<rparr> \<in> set cs"
    unfolding cs_def records_def set_parse set_changesOf
    by (auto simp: changeOfStatus_def)
  have f: "\<forall>p. isSpecPath p \<and> ((''A'', p) \<in> set records \<or> (''M'', p) \<in> set records) \<longrightarrow>
            \<lparr>diffSha = s, change = ChangeApply, diffPath = p\<rparr> \<in> set cs"
    unfolding cs_def records_def set_parse set_changesOf
    by (auto simp: changeOfStatus_def)
  from a b c d e f show ?thesis
    unfolding Let_def cs_def records_def by blast
qed

theorem parseNameStatusDiff_deletes_first_witness:
  "parseNameStatusDiff test_sha test_sort_input =
     filter (\<lambda>c. change c = ChangeDelete) test_expected
     @ filter (\<lambda>c. change c = ChangeApply) test_expected
   \<and> sorted (map diffPath (filter (\<lambda>c. change c = ChangeDelete) test_expected))
   \<and> sorted (map diffPath (filter (\<lambda>c. change c = ChangeApply) test_expected))"
  using parseNameStatusDiff_deletes_first [of test_sort_input test_sha]
  by (simp add: Let_def parseNameStatusDiff_tests)

text \<open>
  C3 as stated fails on the input of the test "should sort the paths": the result the
  test asserts has \<^verbatim>\<open>b.yml\<close> (a delete) before \<^verbatim>\<open>aa.json\<close> (an apply), so it is not
  sorted by path.
\<close>

theorem parseNameStatusDiff_counterexample:
  "parseNameStatusDiff test_sha test_sort_input = test_expected
   \<and> \<not> sorted (map diffPath (parseNameStatusDiff test_sha test_sort_input))"
  by code_simp

section \<open>Properties of the reverse sync writer\<close>

lemma resourceUpserted_no_git:
  assumes "resourceUpserted env r run fs = Some (res, run')"
  shows "filter isGitCall (calls run') = filter isGitCall (calls run)"
  using assms
  by (auto simp: resourceUpserted_def Let_def isGitCall_def split: option.splits sum.splits)

lemma resourceDeleted_no_git:
  assumes "resourceDeleted env r run fs = Some (res, run')"
  shows "filter isGitCall (calls run') = filter isGitCall (calls run)"
  using assms
  by (auto simp: resourceDeleted_def isGitCall_def split: option.splits)

lemma syncEach_no_git:
  assumes "syncEach env action specs resources run = Some (res, run')"
  shows "filter isGitCall (calls run') = filter isGitCall (calls run)"
  using assms
proof (induction resources arbitrary: run)
  case Nil
  then show ?case by simp
next
  case (Cons r rest)
  show ?case
  proof (cases "matchSpec r specs")
    case (Inl e)
    with Cons.prems show ?thesis by simp
  next
    case (Inr fileSpec)
    let ?step = "if action = Delete then resourceDeleted env r run fileSpec
                 else resourceUpserted env r run fileSpec"
    from Cons.prems Inr obtain res1 run1 where s: "?step = Some (res1, run1)"
      by (cases ?step) auto
    then have g: "filter isGitCall (calls run1) = filter isGitCall (calls run)"
      by (auto dest: resourceDeleted_no_git resourceUpserted_no_git split: if_splits)
    show ?thesis
    proof (cases res1)
      case (Inl e)
      with Cons.prems Inr s g show ?thesis by (auto split: if_splits)
    next
      case (Inr u)
      with Cons.prems \<open>matchSpec r specs = Inr fileSpec\<close> s
      have "syncEach env action specs rest run1 = Some (res, run')"
        by (auto split: if_splits)
      from Cons.IH [OF this] g show ?thesis by simp
    qed
  qed
qed

lemma commitMessageOf_contains:
  "sublist (if action = Delete then ''Delete'' else ''Update'') (commitMessageOf env app action)"
  "sublist ''[atomist:generated]'' (commitMessageOf env app action)"
  "sublist (commitTag env) (commitMessageOf env app action)"
proof -
  show "sublist (if action = Delete then ''Delete'' else ''Update'') (commitMessageOf env app action)"
  proof -
    have "sublist (if action = Delete then ''Delete'' else ''Update'')
            ([] @ (if action = Delete then ''Delete'' else ''Update'')
             @ ('' specs for '' @ appName env app @ [CHR 0x0A, CHR 0x0A]
                @ ''[atomist:generated] '' @ commitTag env @ [CHR 0x0A]))"
      by (rule sublist_appendI)
    then show ?thesis by (simp add: commitMessageOf_def)
  qed
  have "commitMessageOf env app action =
          ((if action = Delete then ''Delete'' else ''Update'') @ '' specs for '' @ appName env app
           @ [CHR 0x0A, CHR 0x0A]) @ ''[atomist:generated]'' @ ('' '' @ commitTag env @ [CHR 0x0A])"
    by (simp add: commitMessageOf_def)
  then show "sublist ''[atomist:generated]'' (commitMessageOf env app action)"
    by (simp only: sublist_appendI)
  have "commitMessageOf env app action =
          ((if action = Delete then ''Delete'' else ''Update'') @ '' specs for '' @ appName env app
           @ [CHR 0x0A, CHR 0x0A] @ ''[atomist:generated] '') @ commitTag env @ [CHR 0x0A]"
    by (simp add: commitMessageOf_def)
  then show "sublist (commitTag env) (commitMessageOf env app action)"
    by (simp only: sublist_appendI)
qed

text \<open>
  C7.  Let the loop over the resources return, leaving the run \<open>run\<close>; the loop makes no
  commit and no push.  When the project is clean, \<open>syncResources\<close> returns with \<open>run\<close>
  as it is.  Otherwise it commits once, with a message that contains the verb of the
  action (\<^verbatim>\<open>Delete\<close> for a delete, \<^verbatim>\<open>Update\<close> else), \<^verbatim>\<open>[atomist:generated]\<close> and the
  commit tag, and then pushes once; when the commit throws it does not push, and when
  the commit or the push throws, \<open>syncResources\<close> throws that error with its message
  prefixed.
\<close>

theorem syncResources_commit_push:
  assumes "syncEach env action (loadSpecs env (project run0)) resources run0 = Some (Inr (), run)"
  shows "let ops = gitProject env;
             msg = commitMessageOf env app action;
             failed = ''Failed to commit and push resource changes to sync repo: '';
             out = syncResources env app resources action run0
         in filter isGitCall (calls run) = filter isGitCall (calls run0)
          \<and> (isClean ops (project run) \<longrightarrow> out = Some (Inr (), run))
          \<and> (\<not> isClean ops (project run) \<longrightarrow>
               sublist (if action = Delete then ''Delete'' else ''Update'') msg
             \<and> sublist ''[atomist:generated]'' msg
             \<and> sublist (commitTag env) msg
             \<and> (\<forall>e. commit ops msg (project run) = Inl e \<longrightarrow>
                   out = Some (Inl (prefixMessage failed e),
                               run\<lparr>calls := calls run @ [GitCommit msg]\<rparr>))
             \<and> (\<forall>p1. commit ops msg (project run) = Inr p1 \<longrightarrow>
                   (\<forall>e. push ops p1 = Inl e \<longrightarrow>
                      out = Some (Inl (prefixMessage failed e),
                                  run\<lparr>project := p1, calls := calls run @ [GitCommit msg, GitPush]\<rparr>))
                 \<and> (\<forall>p2. push ops p1 = Inr p2 \<longrightarrow>
                      out = Some (Inr (),
                                  run\<lparr>project := p2, calls := calls run @ [GitCommit msg, GitPush]\<rparr>))))"
proof -
  have g: "filter isGitCall (calls run) = filter isGitCall (calls run0)"
    using syncEach_no_git [OF assms] .
  have c: "isClean (gitProject env) (project run) \<longrightarrow>
             syncResources env app resources action run0 = Some (Inr (), run)"
    using assms by (simp add: syncResources_def Let_def)
  have d: "\<not> isClean (gitProject env) (project run) \<longrightarrow>
      (\<forall>e. commit (gitProject env) (commitMessageOf env app action) (project run) = Inl e \<longrightarrow>
          syncResources env app resources action run0 =
            Some (Inl (prefixMessage ''Failed to commit and push resource changes to sync repo: '' e),
                  run\<lparr>calls := calls run @ [GitCommit (commitMessageOf env app action)]\<rparr>))"
    using assms by (simp add: syncResources_def Let_def)
  have e: "\<not> isClean (gitProject env) (project run) \<longrightarrow>
      (\<forall>p1. commit (gitProject env) (commitMessageOf env app action) (project run) = Inr p1 \<longrightarrow>
         (\<forall>e. push (gitProject env) p1 = Inl e \<longrightarrow>
            syncResources env app resources action run0 =
              Some (Inl (prefixMessage ''Failed to commit and push resource changes to sync repo: '' e),
                    run\<lparr>project := p1,
                        calls := calls run @ [GitCommit (commitMessageOf env app action), GitPush]\<rparr>))
       \<and> (\<forall>p2. push (gitProject env) p1 = Inr p2 \<longrightarrow>
            syncResources env app resources action run0 =
              Some (Inr (),
                    run\<lparr>project := p2,
                        calls := calls run @ [GitCommit (commitMessageOf env app action), GitPush]\<rparr>)))"
    using assms by (simp add: syncResources_def Let_def)
  from g c d e commitMessageOf_contains show ?thesis
    unfolding Let_def by blast
qed

theorem syncResources_commit_push_witness:
  "syncResources env_toy del_web [secret_db_password] Upsert (run_of project_empty) =
     Some (Inr (),
       run_secret_added
         \<lparr>project := (project run_secret_added)\<lparr>committed := workingCopy (project run_secret_added)\<rparr>,
          calls := calls run_secret_added
                   @ [GitCommit (commitMessageOf env_toy del_web Upsert), GitPush]\<rparr>)
   \<and> syncResources env_toy del_web [secret_db_password] Upsert (run_of project_secret) =
       Some (Inr (),
         (run_of project_secret)
           \<lparr>calls := [SetContent ''default-db-secret.json''
                        (''Secret db password=aHVudGVyMg=='' @ [CHR 0x0A])]\<rparr>)"
proof -
  have h1: "syncEach env_toy Upsert (loadSpecs env_toy (project (run_of project_empty)))
              [secret_db_password] (run_of project_empty) = Some (Inr (), run_secret_added)"
    by code_simp
  have h2: "syncEach env_toy Upsert (loadSpecs env_toy (project (run_of project_secret)))
              [secret_db_password] (run_of project_secret) =
            Some (Inr (), (run_of project_secret)
                   \<lparr>calls := [SetContent ''default-db-secret.json''
                                (''Secret db password=aHVudGVyMg=='' @ [CHR 0x0A])]\<rparr>)"
    by code_simp
  have c1: "\<not> isClean (gitProject env_toy) (project run_secret_added)"
    by (simp add: env_toy_def mem_ops_def run_secret_added_def)
  have c2: "isClean (gitProject env_toy) (project ((run_of project_secret)
                   \<lparr>calls := [SetContent ''default-db-secret.json''
                                (''Secret db password=aHVudGVyMg=='' @ [CHR 0x0A])]\<rparr>))"
    by (simp add: env_toy_def mem_ops_def run_of_def project_secret_def)
  have k: "commit (gitProject env_toy) (commitMessageOf env_toy del_web Upsert) (project run_secret_added)
             = Inr ((project run_secret_added)\<lparr>committed := workingCopy (project run_secret_added)\<rparr>)"
    by (simp add: env_toy_def mem_ops_def)
  have p: "push (gitProject env_toy) ((project run_secret_added)\<lparr>committed := workingCopy (project run_secret_added)\<rparr>)
             = Inr ((project run_secret_added)\<lparr>committed := workingCopy (project run_secret_added)\<rparr>)"
    by (simp add: env_toy_def mem_ops_def run_secret_added_def)
  from syncResources_commit_push [OF h1, of del_web] c1 k p
  have "syncResources env_toy del_web [secret_db_password] Upsert (run_of project_empty) =
     Some (Inr (),
       run_secret_added
         \<lparr>project := (project run_secret_added)\<lparr>committed := workingCopy (project run_secret_added)\<rparr>,
          calls := calls run_secret_added
                   @ [GitCommit (commitMessageOf env_toy del_web Upsert), GitPush]\<rparr>)"
    unfolding Let_def by blast
  moreover from syncResources_commit_push [OF h2, of del_web] c2
  have "syncResources env_toy del_web [secret_db_password] Upsert (run_of project_secret) =
       Some (Inr (),
         (run_of project_secret)
           \<lparr>calls := [SetContent ''default-db-secret.json''
                        (''Secret db password=aHVudGVyMg=='' @ [CHR 0x0A])]\<rparr>)"
    unfolding Let_def by blast
  ultimately show ?thesis by blast
qed

text \<open>
  Whatever \<open>resourceUpserted\<close> writes for a resource is a print of the resource as it
  was passed in.
\<close>

lemma resourceUpserted_content:
  assumes "resourceUpserted env r run fs = Some (Inr u, run')"
  shows "\<exists>p. calls run' = calls run @ [AddFile p (stringifySpec env r)]
           \<or> calls run' = calls run @ [SetContent p (stringifySpec env r)]
           \<or> calls run' = calls run @ [SetContent p (safeDump env r)]"
  using assms
  by (auto simp: resourceUpserted_def Let_def split: option.splits sum.splits if_splits)

text \<open>
  C1 at a Secret with one data field, upserted into an empty project under a
  configuration with a cipher key: the file is written with the data value as it was
  supplied.  The printer writes the kind, the name and the data entries.
\<close>

theorem syncApplication_writes_secret_as_supplied:
  "sync sdm_with_key = Some \<lparr>syncRepo = Some (Resolved repo_specs), secretKey = Some ''passphrase''\<rparr>
   \<and> data secret_db_password = [(''password'', ''aHVudGVyMg=='')]
   \<and> map_option (\<lambda>(r, run). (r, calls run))
        (syncApplication env_toy sdm_with_key del_web [secret_db_password] Upsert (run_of project_empty))
     = Some (Inr (),
         [AddFile ''default-db-secret.json'' (''Secret db password=aHVudGVyMg=='' @ [CHR 0x0A]),
          GitCommit (''Update specs for default/web'' @ [CHR 0x0A, CHR 0x0A]
                     @ ''[atomist:generated] [atomist:commit:test]'' @ [CHR 0x0A]),
          GitPush])"
  by code_simp

end
